theory Spec2Isabelle
  imports Complex_Main
begin

section \<open>Navigation constants (constants.js)\<close>

text \<open>
  JavaScript numbers are modelled as mathematical reals. \<open>Math.sqrt\<close>, \<open>Math.sin\<close>,
  \<open>Math.cos\<close>, \<open>Math.tan\<close> and \<open>Math.PI\<close> are the real functions \<open>sqrt\<close>, \<open>sin\<close>,
  \<open>cos\<close>, \<open>tan\<close> and the constant \<open>pi\<close>. A value that may be \<open>null\<close> or missing is an
  \<open>option\<close>. Where the code divides and the divisor can be zero, the IEEE outcome
  (an infinity or NaN) is written out at the comparison that consumes it. Where a
  property depends on which way a comparison of rounded values falls (the hit test), the
  rounding of each operation is written out as well.
\<close>

definition DEFAULT_CAMERA_HEIGHT :: real where
  "DEFAULT_CAMERA_HEIGHT = 2.5"

definition MARKER_WORLD_RADIUS :: real where
  "MARKER_WORLD_RADIUS = 1.8"

definition MARKER_MIN_SIZE :: real where
  "MARKER_MIN_SIZE = 8"

definition MARKER_MAX_SIZE :: real where
  "MARKER_MAX_SIZE = 120"

definition HOVER_SCALE :: real where
  "HOVER_SCALE = 1"

definition HIT_RADIUS_MULTIPLIER :: real where
  "HIT_RADIUS_MULTIPLIER = 1.0"

definition FOV_MARGIN :: real where
  "FOV_MARGIN = 5"

definition HIDE_ARROWS_FOV :: real where
  "HIDE_ARROWS_FOV = 35"

definition SCALE_ARROWS_FOV :: real where
  "SCALE_ARROWS_FOV = 45"

section \<open>Coordinate projector (projector.js)\<close>

text \<open>The camera metadata object of a photo; \<open>??\<close> in the code reads a field that may be missing.\<close>

record cameraConfig =
  cam_heading :: "real option"
  cam_height :: "real option"
  cam_lon :: real
  cam_lat :: real
  cam_distance_scale :: "real option"
  cam_marker_scale :: "real option"

text \<open>The fields of a \<open>StreetViewProjector\<close> instance.\<close>

record StreetViewProjector =
  canvasWidth :: real
  canvasHeight :: real
  p_cameraConfig :: "cameraConfig option"

text \<open>\<open>this.cameraConfig?.height ?? NAV_CONSTANTS.DEFAULT_CAMERA_HEIGHT\<close>\<close>

definition projCameraHeight :: "StreetViewProjector \<Rightarrow> real" where
  "projCameraHeight P =
     (case p_cameraConfig P of
        None \<Rightarrow> DEFAULT_CAMERA_HEIGHT
      | Some c \<Rightarrow> (case cam_height c of None \<Rightarrow> DEFAULT_CAMERA_HEIGHT | Some h \<Rightarrow> h))"

definition resize :: "StreetViewProjector \<Rightarrow> real \<Rightarrow> real \<Rightarrow> StreetViewProjector" where
  "resize P width height = P\<lparr>canvasWidth := width, canvasHeight := height\<rparr>"

definition proj_setCameraConfig :: "StreetViewProjector \<Rightarrow> cameraConfig option \<Rightarrow> StreetViewProjector" where
  "proj_setCameraConfig P config = P\<lparr>p_cameraConfig := config\<rparr>"

definition lonLatToMeters :: "real \<Rightarrow> real \<Rightarrow> real \<Rightarrow> real \<Rightarrow> real \<times> real" where
  "lonLatToMeters lon lat cameraLon cameraLat =
     (let R = 6371000;
          dLon = (lon - cameraLon) * pi / 180;
          midLat = cameraLat * pi / 180;
          dLat = (lat - cameraLat) * pi / 180;
          x = dLon * R * cos midLat;
          z = - dLat * R
      in (x, z))"

text \<open>The result object of \<open>metersToScreen\<close>.\<close>

record projection =
  screenX :: real
  screenY :: real
  distance :: real
  visible :: bool

text \<open>
  \<open>Math.abs(n / d) > b\<close> for finite \<open>n\<close>, \<open>d\<close>, \<open>b\<close>. With \<open>d = 0\<close> the quotient is an
  infinity when \<open>n\<close> is not zero (greater than every finite bound) and NaN when \<open>n\<close> is
  zero (every comparison with NaN is false). In \<open>metersToScreen\<close> the bound
  \<open>1 + FOV_MARGIN / fov\<close> is finite unless \<open>fov\<close> is 0.
\<close>

definition abs_quot_gt :: "real \<Rightarrow> real \<Rightarrow> real \<Rightarrow> bool" where
  "abs_quot_gt n d b = (if d = 0 then n \<noteq> 0 else \<bar>n / d\<bar> > b)"

definition metersToScreen ::
  "StreetViewProjector \<Rightarrow> real \<Rightarrow> real \<Rightarrow> real \<Rightarrow> real \<Rightarrow> real \<Rightarrow> real \<Rightarrow> projection" where
  "metersToScreen P x y z yaw pitch fov =
     (let cosYaw = cos yaw;
          sinYaw = sin yaw;
          rotatedX = x * cosYaw - z * sinYaw;
          rotatedZ = x * sinYaw + z * cosYaw
      in if rotatedZ \<ge> 0
         then \<lparr>screenX = 0, screenY = 0, distance = 0, visible = False\<rparr>
         else
           let distance = sqrt (x * x + y * y + z * z);
               cosPitch = cos (- pitch);
               sinPitch = sin (- pitch);
               rotatedY = y * cosPitch - rotatedZ * sinPitch;
               finalZ = y * sinPitch + rotatedZ * cosPitch;
               fovRad = (fov * pi) / 180;
               aspectRatio = canvasWidth P / canvasHeight P;
               tanHalfFov = tan (fovRad / 2);
               ndcX = rotatedX / (- finalZ * tanHalfFov * aspectRatio);
               ndcY = rotatedY / (- finalZ * tanHalfFov);
               margin = FOV_MARGIN / fov
           in if abs_quot_gt rotatedX (- finalZ * tanHalfFov * aspectRatio) (1 + margin)
                 \<or> abs_quot_gt rotatedY (- finalZ * tanHalfFov) (1 + margin)
              then \<lparr>screenX = 0, screenY = 0, distance = distance, visible = False\<rparr>
              else
                let screenX = (ndcX + 1) * 0.5 * canvasWidth P;
                    screenY = (1 - ndcY) * 0.5 * canvasHeight P
                in \<lparr>screenX = screenX, screenY = screenY, distance = distance, visible = True\<rparr>)"

text \<open>
  The ray through a screen pixel after the inverse pitch and the inverse yaw rotation:
  the first part of the body of \<open>screenToGround\<close>, up to the test \<open>rayY >= 0\<close>.
\<close>

definition groundRay ::
  "StreetViewProjector \<Rightarrow> real \<Rightarrow> real \<Rightarrow> real \<Rightarrow> real \<Rightarrow> real \<Rightarrow> real \<times> real \<times> real" where
  "groundRay P sx sy yaw pitch fov =
     (let ndcX = (sx / canvasWidth P) * 2 - 1;
          ndcY = 1 - (sy / canvasHeight P) * 2;
          fovRad = (fov * pi) / 180;
          aspectRatio = canvasWidth P / canvasHeight P;
          tanHalfFov = tan (fovRad / 2);
          rayX = ndcX * tanHalfFov * aspectRatio;
          rayY = ndcY * tanHalfFov;
          rayZ = - 1;
          cosPitch = cos pitch;
          sinPitch = sin pitch;
          tempY = rayY * cosPitch - rayZ * sinPitch;
          tempZ1 = rayY * sinPitch + rayZ * cosPitch;
          rayY = tempY;
          rayZ = tempZ1;
          cosYaw = cos yaw;
          sinYaw = sin yaw;
          tempX = rayX * cosYaw + rayZ * sinYaw;
          tempZ2 = - rayX * sinYaw + rayZ * cosYaw;
          rayX = tempX;
          rayZ = tempZ2
      in (rayX, rayY, rayZ))"

definition screenToGround ::
  "StreetViewProjector \<Rightarrow> real \<Rightarrow> real \<Rightarrow> real \<Rightarrow> real \<Rightarrow> real \<Rightarrow> (real \<times> real) option" where
  "screenToGround P sx sy yaw pitch fov =
     (let cameraHeight = projCameraHeight P;
          (rayX, rayY, rayZ) = groundRay P sx sy yaw pitch fov
      in if rayY \<ge> 0 then None
         else
           let t = - cameraHeight / rayY
           in if t < 0 then None
              else Some (rayX * t, rayZ * t))"

definition calculateFlattenRatio :: "StreetViewProjector \<Rightarrow> real \<Rightarrow> real \<Rightarrow> real" where
  "calculateFlattenRatio P horizontalDistance pitch =
     (let cameraHeight = projCameraHeight P;
          h = cameraHeight;
          d = max 0.1 horizontalDistance;
          baseFlatten = h / sqrt (h * h + d * d);
          pitchFactor = \<bar>cos pitch\<bar>;
          flattenRatio = 1 - pitchFactor * (1 - baseFlatten)
      in max 0.15 (min 0.9 flattenRatio))"

definition focalLength :: "StreetViewProjector \<Rightarrow> real \<Rightarrow> real" where
  "focalLength P fov =
     (let fovRad = (fov * pi) / 180
      in (canvasHeight P / 2) / tan (fovRad / 2))"

definition calculateMarkerSize :: "StreetViewProjector \<Rightarrow> real \<Rightarrow> real \<Rightarrow> real \<Rightarrow> real" where
  "calculateMarkerSize P worldRadius horizontalDistance fov =
     (let cameraHeight = projCameraHeight P;
          markerScale = (case p_cameraConfig P of
                           None \<Rightarrow> 1.0
                         | Some c \<Rightarrow> (case cam_marker_scale c of None \<Rightarrow> 1.0 | Some s \<Rightarrow> s));
          slant = sqrt (horizontalDistance * horizontalDistance + cameraHeight * cameraHeight);
          d = max 0.5 slant;
          f = focalLength P fov;
          size = (worldRadius * markerScale) * f / d
      in max MARKER_MIN_SIZE (min MARKER_MAX_SIZE size))"

text \<open>
  The intermediate quantities of \<open>metersToScreen\<close> and \<open>screenToGround\<close> by name, for
  stating properties of them: the point after the yaw rotation, after the pitch rotation
  (\<open>finalZ\<close> is the depth along the viewing axis, negative in front of the camera),
  \<open>tan(fovRad / 2)\<close> and the aspect ratio.
\<close>

definition rotatedX :: "real \<Rightarrow> real \<Rightarrow> real \<Rightarrow> real" where
  "rotatedX x z yaw = x * cos yaw - z * sin yaw"

definition rotatedZ :: "real \<Rightarrow> real \<Rightarrow> real \<Rightarrow> real" where
  "rotatedZ x z yaw = x * sin yaw + z * cos yaw"

definition rotatedY :: "real \<Rightarrow> real \<Rightarrow> real \<Rightarrow> real \<Rightarrow> real \<Rightarrow> real" where
  "rotatedY x y z yaw pitch = y * cos (- pitch) - rotatedZ x z yaw * sin (- pitch)"

definition finalZ :: "real \<Rightarrow> real \<Rightarrow> real \<Rightarrow> real \<Rightarrow> real \<Rightarrow> real" where
  "finalZ x y z yaw pitch = y * sin (- pitch) + rotatedZ x z yaw * cos (- pitch)"

definition tanHalfFov :: "real \<Rightarrow> real" where
  "tanHalfFov fov = tan ((fov * pi) / 180 / 2)"

definition aspectRatio :: "StreetViewProjector \<Rightarrow> real" where
  "aspectRatio P = canvasWidth P / canvasHeight P"

section \<open>Targets, nearby photos and projected markers\<close>

record target =
  t_id :: string
  t_lon :: real
  t_lat :: real
  t_next :: "bool option"
  t_display_name :: "string option"

record photo =
  ph_id :: string
  ph_lon :: real
  ph_lat :: real
  ph_displayName :: "string option"

datatype markerType = Navigation | Nearby

datatype markerData = TargetData target | PhotoData photo

text \<open>
  A projected marker object. \<open>m_type\<close> and \<open>m_data\<close> are absent (\<open>None\<close>) on what
  \<open>projectTarget\<close> returns and are set by \<open>update\<close>; the calibration metadata is absent on
  the markers of nearby photos.
\<close>

record marker =
  m_id :: string
  m_screenX :: real
  m_screenY :: real
  m_distance :: real
  m_radius :: real
  m_flattenY :: real
  m_type :: "markerType option"
  m_data :: "markerData option"
  m_isNext :: "bool option"
  m_hasOverride :: "bool option"
  m_isCalibrationSelected :: "bool option"
  m_isHidden :: "bool option"
  m_displayName :: string

section \<open>Hit tester (hit-tester.js)\<close>

record StreetViewHitTester =
  ht_markers :: "marker list"

text \<open>
  \<open>[...markers].sort((a, b) => a.distance - b.distance)\<close>: a stable sort, near to far.
\<close>

definition ht_setMarkers :: "StreetViewHitTester \<Rightarrow> marker list \<Rightarrow> StreetViewHitTester" where
  "ht_setMarkers H markers = H\<lparr>ht_markers := sort_key m_distance markers\<rparr>"

text \<open>
  With \<open>hitRadius = 0\<close> both quotients are infinities or NaN, so is the sum of their
  squares, and the comparison \<open><= 1\<close> is false. \<open>flattenY || 1\<close> replaces a zero
  \<open>flattenY\<close> by 1.
\<close>

definition isPointInMarker :: "real \<Rightarrow> real \<Rightarrow> marker \<Rightarrow> bool" where
  "isPointInMarker sx sy marker =
     (let mx = m_screenX marker;
          my = m_screenY marker;
          radius = m_radius marker;
          flattenY = m_flattenY marker;
          hitRadius = radius * HIT_RADIUS_MULTIPLIER;
          dx = sx - mx;
          dy = sy - my;
          fy = (if flattenY = 0 then 1 else flattenY);
          normX = dx / hitRadius;
          normY = dy / (hitRadius * fy)
      in if hitRadius = 0 then False
         else (normX * normX + normY * normY) \<le> 1)"

definition testPoint :: "StreetViewHitTester \<Rightarrow> real \<Rightarrow> real \<Rightarrow> marker option" where
  "testPoint H sx sy = find (isPointInMarker sx sy) (ht_markers H)"

text \<open>
  The same test as the code evaluates it in floating point: the result of every
  arithmetic operation is rounded, by \<open>fl\<close>. A zero divisor makes the quotient an infinity
  or NaN and the comparison false. With \<open>fl\<close> the identity this is \<open>isPointInMarker\<close>.
  (The comparator of the sort in \<open>setMarkers\<close> needs no rounding: the sign of a rounded
  difference of two doubles is the sign of the exact difference.)
\<close>

definition isPointInMarkerFl :: "(real \<Rightarrow> real) \<Rightarrow> real \<Rightarrow> real \<Rightarrow> marker \<Rightarrow> bool" where
  "isPointInMarkerFl fl sx sy marker =
     (let mx = m_screenX marker;
          my = m_screenY marker;
          radius = m_radius marker;
          flattenY = m_flattenY marker;
          hitRadius = fl (radius * HIT_RADIUS_MULTIPLIER);
          dx = fl (sx - mx);
          dy = fl (sy - my);
          fy = (if flattenY = 0 then 1 else flattenY);
          normX = fl (dx / hitRadius);
          normY = fl (dy / fl (hitRadius * fy))
      in if hitRadius = 0 \<or> fl (hitRadius * fy) = 0 then False
         else fl (fl (normX * normX) + fl (normY * normY)) \<le> 1)"

definition testPointFl ::
  "(real \<Rightarrow> real) \<Rightarrow> StreetViewHitTester \<Rightarrow> real \<Rightarrow> real \<Rightarrow> marker option" where
  "testPointFl fl H sx sy = find (isPointInMarkerFl fl sx sy) (ht_markers H)"

section \<open>Calibration state (state.js)\<close>

record override =
  ov_bearing :: "real option"
  ov_distance :: "real option"
  ov_height :: "real option"

text \<open>The fields of the \<open>state\<close> object that the navigation engine reads.\<close>

record appState =
  originalTargetOverrides :: "string \<rightharpoonup> override"
  editedTargetOverrides :: "string \<rightharpoonup> override"
  originalTargetHidden :: "string \<rightharpoonup> bool"
  editedTargetHidden :: "string \<rightharpoonup> bool"
  selectedTargetId :: "string option"
  setFromClickMode :: bool

text \<open>JavaScript truthiness of a value that is a string or \<open>null\<close>.\<close>

definition truthy :: "string option \<Rightarrow> bool" where
  "truthy v = (case v of None \<Rightarrow> False | Some s \<Rightarrow> s \<noteq> [])"

definition setTargetOverride :: "appState \<Rightarrow> string \<Rightarrow> real \<Rightarrow> real \<Rightarrow> real \<Rightarrow> appState" where
  "setTargetOverride st targetId bearing distanceM height =
     st\<lparr>editedTargetOverrides := (editedTargetOverrides st)
          (targetId \<mapsto> \<lparr>ov_bearing = Some bearing, ov_distance = Some distanceM, ov_height = Some height\<rparr>)\<rparr>"

definition setTargetHidden :: "appState \<Rightarrow> string \<Rightarrow> bool \<Rightarrow> appState" where
  "setTargetHidden st targetId hidden =
     (if hidden then st\<lparr>editedTargetHidden := (editedTargetHidden st)(targetId \<mapsto> True)\<rparr>
      else st\<lparr>editedTargetHidden := (editedTargetHidden st)(targetId := None)\<rparr>)"

definition isTargetHidden :: "appState \<Rightarrow> string \<Rightarrow> bool" where
  "isTargetHidden st targetId =
     (case editedTargetHidden st targetId of None \<Rightarrow> False | Some b \<Rightarrow> b)"

definition clearTargetOverrideEdit :: "appState \<Rightarrow> string \<Rightarrow> appState" where
  "clearTargetOverrideEdit st targetId =
     (case originalTargetOverrides st targetId of
        Some original \<Rightarrow>
          st\<lparr>editedTargetOverrides := (editedTargetOverrides st)
               (targetId \<mapsto> \<lparr>ov_bearing = None, ov_distance = None, ov_height = None\<rparr>)\<rparr>
      | None \<Rightarrow>
          st\<lparr>editedTargetOverrides := (editedTargetOverrides st)(targetId := None)\<rparr>)"

definition selectTarget :: "appState \<Rightarrow> string \<Rightarrow> appState" where
  "selectTarget st targetId = st\<lparr>selectedTargetId := Some targetId, setFromClickMode := False\<rparr>"

definition deselectTarget :: "appState \<Rightarrow> appState" where
  "deselectTarget st = st\<lparr>selectedTargetId := None, setFromClickMode := False\<rparr>"

definition setSetFromClickMode :: "appState \<Rightarrow> bool \<Rightarrow> appState" where
  "setSetFromClickMode st active = st\<lparr>setFromClickMode := active\<rparr>"

definition getEffectiveOverride :: "appState \<Rightarrow> string \<Rightarrow> override option" where
  "getEffectiveOverride st targetId =
     (case editedTargetOverrides st targetId of
        Some edited \<Rightarrow>
          if ov_bearing edited = None \<and> ov_distance edited = None then None
          else Some edited
      | None \<Rightarrow>
          (case originalTargetOverrides st targetId of
             Some original \<Rightarrow> Some original
           | None \<Rightarrow> None))"

section \<open>Marker renderer (renderer.js)\<close>

record groundCursor =
  gc_screenX :: real
  gc_screenY :: real
  gc_flattenY :: real
  gc_arrowAngle :: "real option"
  gc_distance :: real
  gc_fov :: real

record gridLine =
  gl_points :: "(real \<times> real) list"
  gl_highlight :: bool

text \<open>
  The fields of a \<open>StreetViewRenderer\<close> instance. An entry of \<open>hoverAnimation\<close> is the
  pair (scale, target). The pixels of the canvas are not modelled; \<open>r_frames\<close> counts the
  draw passes that \<open>render\<close> has carried out on it.
\<close>

record StreetViewRenderer =
  r_markers :: "marker list"
  r_nearestMarkerId :: "string option"
  r_cursorNearestMarkerId :: "string option"
  r_hoveredMarkerId :: "string option"
  r_selectedMarkerId :: "string option"
  r_visible :: bool
  r_groundCursor :: "groundCursor option"
  r_nearbyMarkers :: "marker list"
  r_groundGrid :: "gridLine list option"
  r_hoverAnimation :: "string \<rightharpoonup> (real \<times> real)"
  r_frames :: nat

definition getAnimatedScale ::
  "StreetViewRenderer \<Rightarrow> string \<Rightarrow> real \<Rightarrow> real \<times> StreetViewRenderer" where
  "getAnimatedScale R ident targetScale =
     (let anim = (case r_hoverAnimation R ident of None \<Rightarrow> (1, 1) | Some a \<Rightarrow> a);
          speed = 0.2;
          scale = fst anim + (targetScale - fst anim) * speed
      in if \<bar>scale - 1\<bar> < 0.01 \<and> targetScale = 1
         then (1, R\<lparr>r_hoverAnimation := (r_hoverAnimation R)(ident := None)\<rparr>)
         else (scale, R\<lparr>r_hoverAnimation := (r_hoverAnimation R)(ident \<mapsto> (scale, targetScale))\<rparr>))"

text \<open>The state effect of \<open>renderMarker\<close>: the animation step of the marker's hover scale.\<close>

definition renderMarker :: "StreetViewRenderer \<Rightarrow> marker \<Rightarrow> StreetViewRenderer" where
  "renderMarker R marker =
     (let isHovered = (r_hoveredMarkerId R = Some (m_id marker));
          targetScale = (if isHovered then HOVER_SCALE else 1)
      in snd (getAnimatedScale R (m_id marker) targetScale))"

text \<open>\<open>[...this.markers].sort((a, b) => b.distance - a.distance)\<close>: stable, far to near.\<close>

definition render :: "StreetViewRenderer \<Rightarrow> StreetViewRenderer" where
  "render R =
     (if \<not> r_visible R then R
      else
        let sortedMarkers = sort_key (\<lambda>m. - m_distance m) (r_markers R);
            R' = fold (\<lambda>marker acc. renderMarker acc marker) sortedMarkers R
        in R'\<lparr>r_frames := r_frames R' + 1\<rparr>)"

text \<open>
  The interior of the ellipse that \<open>renderNavigationMarker\<close> and \<open>renderNearbyMarker\<close>
  fill for a marker: \<open>arc(0, 0, radius, 0, 2 * Math.PI)\<close> under
  \<open>translate(screenX, screenY)\<close> and \<open>scale(1, flattenY)\<close>; the hover scale is 1. An
  ellipse with a zero radius or a zero \<open>flattenY\<close> has no interior.
\<close>

definition insideRenderedEllipse :: "real \<Rightarrow> real \<Rightarrow> marker \<Rightarrow> bool" where
  "insideRenderedEllipse x y marker =
     (let r = m_radius marker;
          dx = x - m_screenX marker;
          dy = y - m_screenY marker
      in r \<noteq> 0 \<and> m_flattenY marker \<noteq> 0
         \<and> (dx / r)\<^sup>2 + (dy / (r * m_flattenY marker))\<^sup>2 < 1)"

text \<open>
  Inside the rendered ellipse by a margin that absorbs the rounding of the hit test, for
  a unit roundoff \<open>u\<close>: \<open>(dx / r)\<^sup>2 + (dy / (r * flattenY))\<^sup>2 \<le> (1 - u)^4 / (1 + u)^6\<close>.
  For doubles \<open>u = 2^-53\<close> and the bound is about \<open>1 - 1.1e-15\<close>; for \<open>u = 0\<close> it is the
  ellipse with its rim.
\<close>

definition insideRenderedEllipseBy :: "real \<Rightarrow> real \<Rightarrow> real \<Rightarrow> marker \<Rightarrow> bool" where
  "insideRenderedEllipseBy u x y marker =
     (let r = m_radius marker;
          dx = x - m_screenX marker;
          dy = y - m_screenY marker
      in r \<noteq> 0 \<and> m_flattenY marker \<noteq> 0
         \<and> ((dx / r)\<^sup>2 + (dy / (r * m_flattenY marker))\<^sup>2) * (1 + u) ^ 6 \<le> (1 - u) ^ 4)"

section \<open>Navigation orchestrator\<close>

record cameraState =
  cs_yaw :: real
  cs_pitch :: real
  cs_fov :: real

text \<open>A call of a method on \<open>null\<close> throws.\<close>

datatype jsError = TypeError

text \<open>The invocation of one of the callbacks supplied by the host application.\<close>

datatype callback =
    SetFromClick real real
  | NearbyClick "markerData option"
  | TargetSelect string

text \<open>
  The module state of the orchestrator. A callback variable is modelled by whether a
  function is stored in it; \<open>overlayCanvas\<close> by whether the canvas exists;
  \<open>containerCursor\<close> is the \<open>style.cursor\<close> of the container element.
\<close>

record navigator =
  projector :: "StreetViewProjector option"
  navRenderer :: "StreetViewRenderer option"
  hitTester :: "StreetViewHitTester option"
  overlayCanvas :: bool
  cameraConfig :: "cameraConfig option"
  targets :: "target list"
  nearbyPhotos :: "photo list"
  nearbyPreviewEnabled :: bool
  onNearbyClickCallback :: bool
  nearestTargetId :: "string option"
  cursorNearestTargetId :: "string option"
  groundGridVisible :: bool
  mouseX :: real
  mouseY :: real
  hoveredId :: "string option"
  currentYaw :: real
  currentPitch :: real
  currentFov :: real
  onNavigateCallback :: bool
  onTargetSelectCallback :: bool
  onSetFromClickCallback :: bool
  containerCursor :: string

text \<open>\<open>Math.atan2(y, x)\<close> over the reals.\<close>

definition atan2 :: "real \<Rightarrow> real \<Rightarrow> real" where
  "atan2 y x =
     (if x > 0 then arctan (y / x)
      else if x < 0 then (if y \<ge> 0 then arctan (y / x) + pi else arctan (y / x) - pi)
      else if y > 0 then pi / 2
      else if y < 0 then - (pi / 2)
      else 0)"

text \<open>\<open>target.display_name || target.id.slice(0, 8)\<close>\<close>

definition displayNameOr :: "string option \<Rightarrow> string \<Rightarrow> string" where
  "displayNameOr name ident =
     (case name of None \<Rightarrow> take 8 ident | Some n \<Rightarrow> if n = [] then take 8 ident else n)"

text \<open>\<open>cameraConfig.height ?? NAV_CONSTANTS.DEFAULT_CAMERA_HEIGHT\<close>\<close>

definition configCameraHeight :: "cameraConfig \<Rightarrow> real" where
  "configCameraHeight cfg = (case cam_height cfg of None \<Rightarrow> DEFAULT_CAMERA_HEIGHT | Some h \<Rightarrow> h)"

text \<open>\<open>cameraConfig.distance_scale ?? 1.0\<close>\<close>

definition configDistanceScale :: "cameraConfig \<Rightarrow> real" where
  "configDistanceScale cfg = (case cam_distance_scale cfg of None \<Rightarrow> 1.0 | Some s \<Rightarrow> s)"

definition setCameraConfig :: "navigator \<Rightarrow> cameraConfig option \<Rightarrow> navigator" where
  "setCameraConfig N config =
     (let N' = N\<lparr>cameraConfig := config\<rparr>
      in case projector N' of
           None \<Rightarrow> N'
         | Some P \<Rightarrow> N'\<lparr>projector := Some (proj_setCameraConfig P config)\<rparr>)"




definition setNearbyPreviewMode :: "navigator \<Rightarrow> bool \<Rightarrow> bool \<Rightarrow> navigator" where
  "setNearbyPreviewMode N enabled onClick =
     N\<lparr>nearbyPreviewEnabled := enabled, onNearbyClickCallback := onClick\<rparr>"

definition refreshCursorStyle :: "appState \<Rightarrow> navigator \<Rightarrow> navigator" where
  "refreshCursorStyle st N =
     (if \<not> overlayCanvas N then N
      else if setFromClickMode st then N\<lparr>containerCursor := ''crosshair''\<rparr>
      else if truthy (hoveredId N) then N\<lparr>containerCursor := ''pointer''\<rparr>
      else N\<lparr>containerCursor := ''grab''\<rparr>)"

subsection \<open>Target projection\<close>

definition projectFromOverride ::
  "appState \<Rightarrow> StreetViewProjector \<Rightarrow> cameraConfig option \<Rightarrow> real \<Rightarrow> real \<Rightarrow> target
     \<Rightarrow> real \<Rightarrow> real \<Rightarrow> real \<Rightarrow> real \<Rightarrow> marker option" where
  "projectFromOverride st P config bearingDeg groundDistance tgt yaw pitch fov overrideHeight =
     (case config of
        None \<Rightarrow> None
      | Some cfg \<Rightarrow>
          let headingRad = (bearingDeg * pi) / 180;
              x = sin headingRad * groundDistance;
              z = - cos headingRad * groundDistance;
              cameraHeight = configCameraHeight cfg;
              y = - cameraHeight + overrideHeight;
              horizontalDistance = groundDistance;
              projected = metersToScreen P x y z yaw pitch fov
          in if \<not> visible projected then None
             else
               let radius = calculateMarkerSize P MARKER_WORLD_RADIUS horizontalDistance fov;
                   flattenY = calculateFlattenRatio P horizontalDistance pitch
               in Some \<lparr>m_id = t_id tgt,
                         m_screenX = screenX projected,
                         m_screenY = screenY projected,
                         m_distance = distance projected,
                         m_radius = radius,
                         m_flattenY = flattenY,
                         m_type = None,
                         m_data = None,
                         m_isNext = t_next tgt,
                         m_hasOverride = Some True,
                         m_isCalibrationSelected = Some (Some (t_id tgt) = selectedTargetId st),
                         m_isHidden = Some (isTargetHidden st (t_id tgt)),
                         m_displayName = displayNameOr (t_display_name tgt) (t_id tgt)\<rparr>)"

text \<open>
  The geographic branch of \<open>projectTarget\<close>, taken when the target has no effective
  override with a bearing; \<open>ov\<close> is the effective override (for \<open>hasOverride\<close>).
\<close>

definition projectGeographic ::
  "appState \<Rightarrow> StreetViewProjector \<Rightarrow> cameraConfig \<Rightarrow> override option \<Rightarrow> target
     \<Rightarrow> real \<Rightarrow> real \<Rightarrow> real \<Rightarrow> marker option" where
  "projectGeographic st P cfg ov tgt yaw pitch fov =
     (let (x0, z0) = lonLatToMeters (t_lon tgt) (t_lat tgt) (cam_lon cfg) (cam_lat cfg);
          distanceScale = configDistanceScale cfg;
          x = x0 * distanceScale;
          z = z0 * distanceScale;
          cameraHeight = configCameraHeight cfg;
          y = - cameraHeight;
          horizontalDistance = sqrt (x * x + z * z);
          projected = metersToScreen P x y z yaw pitch fov
      in if \<not> visible projected then None
         else
           let radius = calculateMarkerSize P MARKER_WORLD_RADIUS horizontalDistance fov;
               flattenY = calculateFlattenRatio P horizontalDistance pitch
           in Some \<lparr>m_id = t_id tgt,
                     m_screenX = screenX projected,
                     m_screenY = screenY projected,
                     m_distance = distance projected,
                     m_radius = radius,
                     m_flattenY = flattenY,
                     m_type = None,
                     m_data = None,
                     m_isNext = t_next tgt,
                     m_hasOverride = Some (ov \<noteq> None),
                     m_isCalibrationSelected = Some (Some (t_id tgt) = selectedTargetId st),
                     m_isHidden = Some (isTargetHidden st (t_id tgt)),
                     m_displayName = displayNameOr (t_display_name tgt) (t_id tgt)\<rparr>)"

text \<open>
  \<open>if (override && override.bearing !== null)\<close> selects the override path, with
  \<open>override.distance ?? 5\<close> and \<open>override.height ?? 0\<close>.
\<close>

definition projectTarget ::
  "appState \<Rightarrow> StreetViewProjector \<Rightarrow> cameraConfig option \<Rightarrow> target
     \<Rightarrow> real \<Rightarrow> real \<Rightarrow> real \<Rightarrow> marker option" where
  "projectTarget st P config tgt yaw pitch fov =
     (case config of
        None \<Rightarrow> None
      | Some cfg \<Rightarrow>
          let ov = getEffectiveOverride st (t_id tgt)
          in case ov of
               None \<Rightarrow> projectGeographic st P cfg ov tgt yaw pitch fov
             | Some v \<Rightarrow>
                 (case ov_bearing v of
                    None \<Rightarrow> projectGeographic st P cfg ov tgt yaw pitch fov
                  | Some bearing \<Rightarrow>
                      projectFromOverride st P config bearing
                        (case ov_distance v of None \<Rightarrow> 5 | Some d \<Rightarrow> d)
                        tgt yaw pitch fov
                        (case ov_height v of None \<Rightarrow> 0 | Some h \<Rightarrow> h)))"

definition projectNearbyPhoto ::
  "StreetViewProjector \<Rightarrow> cameraConfig option \<Rightarrow> photo \<Rightarrow> real \<Rightarrow> real \<Rightarrow> real \<Rightarrow> marker option" where
  "projectNearbyPhoto P config ph yaw pitch fov =
     (case config of
        None \<Rightarrow> None
      | Some cfg \<Rightarrow>
          let (x0, z0) = lonLatToMeters (ph_lon ph) (ph_lat ph) (cam_lon cfg) (cam_lat cfg);
              distanceScale = configDistanceScale cfg;
              x = x0 * distanceScale;
              z = z0 * distanceScale;
              cameraHeight = configCameraHeight cfg;
              y = - cameraHeight;
              horizontalDistance = sqrt (x * x + z * z);
              projected = metersToScreen P x y z yaw pitch fov
          in if \<not> visible projected then None
             else
               let radius = calculateMarkerSize P MARKER_WORLD_RADIUS horizontalDistance fov;
                   flattenY = calculateFlattenRatio P horizontalDistance pitch
               in Some \<lparr>m_id = ph_id ph,
                         m_screenX = screenX projected,
                         m_screenY = screenY projected,
                         m_distance = distance projected,
                         m_radius = radius,
                         m_flattenY = flattenY,
                         m_type = Some Nearby,
                         m_data = Some (PhotoData ph),
                         m_isNext = None,
                         m_hasOverride = None,
                         m_isCalibrationSelected = None,
                         m_isHidden = None,
                         m_displayName = displayNameOr (ph_displayName ph) (ph_id ph)\<rparr>)"

subsection \<open>Ground grid\<close>

definition GROUND_GRID_RINGS :: "real list" where
  "GROUND_GRID_RINGS = [2, 5, 8, 10, 15, 20, 25, 30, 40, 50, 60, 75, 100, 130, 170, 200, 250, 300]"

definition GROUND_GRID_BEARINGS :: "nat list" where
  "GROUND_GRID_BEARINGS = map (\<lambda>i. i * 10) [0..<36]"

text \<open>
  The inner loop over the projected points of one ring or bearing line, with the final
  push after it: an invisible point ends the current segment, which is kept when it has
  at least two points.
\<close>

fun gridPolyline ::
  "bool \<Rightarrow> projection list \<Rightarrow> (real \<times> real) list \<Rightarrow> gridLine list \<Rightarrow> gridLine list" where
  "gridPolyline hl [] points lines =
     (if length points \<ge> 2 then lines @ [\<lparr>gl_points = points, gl_highlight = hl\<rparr>] else lines)"
| "gridPolyline hl (projected # rest) points lines =
     (if visible projected
      then gridPolyline hl rest (points @ [(screenX projected, screenY projected)]) lines
      else if length points > 0
      then gridPolyline hl rest []
             (if length points \<ge> 2 then lines @ [\<lparr>gl_points = points, gl_highlight = hl\<rparr>]
              else lines)
      else gridPolyline hl rest points lines)"

definition projectGroundGrid ::
  "StreetViewProjector \<Rightarrow> cameraConfig \<Rightarrow> real \<Rightarrow> real \<Rightarrow> real \<Rightarrow> gridLine list" where
  "projectGroundGrid P cfg yaw pitch fov =
     (let cameraHeight = configCameraHeight cfg;
          distanceScale = configDistanceScale cfg;
          groundY = - cameraHeight;
          ringLines =
            fold (\<lambda>rawDist lines.
                    let d = rawDist * distanceScale;
                        segments = 72
                    in gridPolyline False
                         (map (\<lambda>i. let angle = (real i / real segments) * pi * 2;
                                       x = sin angle * d;
                                       z = - cos angle * d
                                   in metersToScreen P x groundY z yaw pitch fov)
                              [0..<Suc segments])
                         [] lines)
                 GROUND_GRID_RINGS [];
          maxDist = last GROUND_GRID_RINGS * distanceScale
      in fold (\<lambda>bearingDeg lines.
                 let bearingRad = (real bearingDeg * pi) / 180;
                     sinB = sin bearingRad;
                     cosB = - cos bearingRad;
                     segments = 40
                 in gridPolyline (bearingDeg mod 90 = 0)
                      (map (\<lambda>i. let d = (real i / real segments) * maxDist;
                                    x = sinB * d;
                                    z = cosB * d
                                in metersToScreen P x groundY z yaw pitch fov)
                           [1..<Suc segments])
                      [] lines)
              GROUND_GRID_BEARINGS ringLines)"

subsection \<open>Nearest target to the cursor\<close>

text \<open>
  The distance that \<open>findNearestTargetToCursor\<close> computes for one target: from the
  target's position in local meters to the ground point under the cursor.
\<close>

definition cursorDist :: "cameraConfig \<Rightarrow> real \<times> real \<Rightarrow> target \<Rightarrow> real" where
  "cursorDist cfg cursorGround tgt =
     (let (targetX, targetZ) = lonLatToMeters (t_lon tgt) (t_lat tgt) (cam_lon cfg) (cam_lat cfg);
          dx = targetX - fst cursorGround;
          dz = targetZ - snd cursorGround
      in sqrt (dx * dx + dz * dz))"

text \<open>
  The loop of \<open>findNearestTargetToCursor\<close>; the accumulator is the pair
  (nearestTarget, nearestDist), \<open>None\<close> while it is (null, Infinity).
\<close>

fun nearestCursorLoop ::
  "appState \<Rightarrow> cameraConfig \<Rightarrow> real \<times> real \<Rightarrow> target list \<Rightarrow> (target \<times> real) option
     \<Rightarrow> (target \<times> real) option" where
  "nearestCursorLoop st cfg cursorGround [] nearest = nearest"
| "nearestCursorLoop st cfg cursorGround (t # ts) nearest =
     (if isTargetHidden st (t_id t) then nearestCursorLoop st cfg cursorGround ts nearest
      else
        let d = cursorDist cfg cursorGround t
        in if (case nearest of None \<Rightarrow> True | Some (nearestTarget, nearestDist) \<Rightarrow> d < nearestDist)
           then nearestCursorLoop st cfg cursorGround ts (Some (t, d))
           else nearestCursorLoop st cfg cursorGround ts nearest)"

definition findNearestTargetToCursor ::
  "appState \<Rightarrow> target list \<Rightarrow> cameraConfig option \<Rightarrow> real \<times> real \<Rightarrow> target option" where
  "findNearestTargetToCursor st tgts config cursorGround =
     (case config of
        None \<Rightarrow> None
      | Some cfg \<Rightarrow>
          if tgts = [] then None
          else map_option fst (nearestCursorLoop st cfg cursorGround tgts None))"

text \<open>\<open>nearestTarget?.id || null\<close>\<close>

definition idOrNull :: "target option \<Rightarrow> string option" where
  "idOrNull t = (case t of None \<Rightarrow> None | Some tgt \<Rightarrow> if t_id tgt = [] then None else Some (t_id tgt))"

subsection \<open>Ground cursor\<close>

definition updateGroundCursor ::
  "appState \<Rightarrow> navigator \<Rightarrow> StreetViewProjector \<Rightarrow> StreetViewRenderer \<Rightarrow> marker list
     \<Rightarrow> real \<Rightarrow> real \<Rightarrow> real \<Rightarrow> navigator \<times> StreetViewRenderer" where
  "updateGroundCursor st N P R markers yaw pitch fov =
     (if truthy (hoveredId N)
      then (N\<lparr>cursorNearestTargetId := None\<rparr>,
            R\<lparr>r_groundCursor := None, r_cursorNearestMarkerId := None\<rparr>)
      else
        case screenToGround P (mouseX N) (mouseY N) yaw pitch fov of
          None \<Rightarrow> (N\<lparr>cursorNearestTargetId := None\<rparr>,
                   R\<lparr>r_groundCursor := None, r_cursorNearestMarkerId := None\<rparr>)
        | Some ground \<Rightarrow>
            let cursorDistance = sqrt (fst ground * fst ground + snd ground * snd ground);
                flattenY = calculateFlattenRatio P cursorDistance pitch;
                nearestTarget = findNearestTargetToCursor st (targets N) (cameraConfig N) ground;
                arrowAngle =
                  (case nearestTarget of
                     None \<Rightarrow> None
                   | Some tgt \<Rightarrow>
                       (case find (\<lambda>m. m_id m = t_id tgt) markers of
                          None \<Rightarrow> None
                        | Some projectedMarker \<Rightarrow>
                            let dx = m_screenX projectedMarker - mouseX N;
                                dy = m_screenY projectedMarker - mouseY N
                            in Some (atan2 dx (- dy))))
            in (N\<lparr>cursorNearestTargetId := idOrNull nearestTarget\<rparr>,
                R\<lparr>r_groundCursor := Some \<lparr>gc_screenX = mouseX N,
                                          gc_screenY = mouseY N,
                                          gc_flattenY = flattenY,
                                          gc_arrowAngle = arrowAngle,
                                          gc_distance = cursorDistance,
                                          gc_fov = fov\<rparr>\<rparr>))"

subsection \<open>The per-frame update\<close>

text \<open>The yaw in world space that \<open>update\<close> derives from the viewer's longitude.\<close>

definition worldYaw :: "cameraConfig \<Rightarrow> real \<Rightarrow> real" where
  "worldYaw cfg lonRad =
     (let lonDeg = (lonRad * 180) / pi;
          imageHeading = (case cam_heading cfg of None \<Rightarrow> 0 | Some h \<Rightarrow> h);
          worldHeadingDeg = imageHeading + lonDeg
      in - (worldHeadingDeg * pi) / 180)"

definition scaleFactorOf :: "real \<Rightarrow> real" where
  "scaleFactorOf fov =
     (if fov \<le> SCALE_ARROWS_FOV
      then (fov - HIDE_ARROWS_FOV) / (SCALE_ARROWS_FOV - HIDE_ARROWS_FOV)
      else 1)"

text \<open>The markers of the navigation targets that \<open>update\<close> builds for a frame.\<close>

definition frameMarkers ::
  "appState \<Rightarrow> navigator \<Rightarrow> StreetViewProjector \<Rightarrow> real \<Rightarrow> real \<Rightarrow> real \<Rightarrow> marker list" where
  "frameMarkers st N P yaw pitch fov =
     (let shouldShowMarkers = fov > HIDE_ARROWS_FOV;
          scaleFactor = scaleFactorOf fov
      in if shouldShowMarkers
         then List.map_filter
                (\<lambda>tgt. map_option
                          (\<lambda>projected. projected\<lparr>m_radius := m_radius projected * scaleFactor,
                                                  m_type := Some Navigation,
                                                  m_data := Some (TargetData tgt)\<rparr>)
                          (projectTarget st P (cameraConfig N) tgt yaw pitch fov))
                (targets N)
         else [])"

text \<open>The markers of the nearby photos that \<open>update\<close> builds for a frame.\<close>

definition frameNearbyMarkers ::
  "navigator \<Rightarrow> StreetViewProjector \<Rightarrow> real \<Rightarrow> real \<Rightarrow> real \<Rightarrow> marker list" where
  "frameNearbyMarkers N P yaw pitch fov =
     (let shouldShowMarkers = fov > HIDE_ARROWS_FOV;
          scaleFactor = scaleFactorOf fov
      in if shouldShowMarkers \<and> length (nearbyPhotos N) > 0 \<and> cameraConfig N \<noteq> None
         then List.map_filter
                (\<lambda>ph. map_option
                         (\<lambda>projected. projected\<lparr>m_radius := m_radius projected * scaleFactor\<rparr>)
                         (projectNearbyPhoto P (cameraConfig N) ph yaw pitch fov))
                (nearbyPhotos N)
         else [])"

definition update :: "appState \<Rightarrow> navigator \<Rightarrow> cameraState \<Rightarrow> jsError + navigator" where
  "update st N cameraState =
     (case (projector N, navRenderer N, cameraConfig N) of
        (Some P, Some R, Some cfg) \<Rightarrow>
          let lonRad = cs_yaw cameraState;
              latRad = cs_pitch cameraState;
              fov = cs_fov cameraState;
              yaw = worldYaw cfg lonRad;
              pitch = latRad;
              N1 = N\<lparr>currentYaw := yaw, currentPitch := pitch, currentFov := fov\<rparr>;
              markers = frameMarkers st N P yaw pitch fov;
              nearbyMarkers = frameNearbyMarkers N P yaw pitch fov;
              allHittable = (if nearbyPreviewEnabled N then markers @ nearbyMarkers else markers)
          in (case hitTester N of
                None \<Rightarrow> Inl TypeError
              | Some H \<Rightarrow>
                  let H' = ht_setMarkers H allHittable;
                      N2 = N1\<lparr>hitTester := Some H'\<rparr>;
                      hitMarker = testPoint H' (mouseX N) (mouseY N);
                      newHoveredId = map_option m_id hitMarker;
                      N3 = (if newHoveredId \<noteq> hoveredId N2
                            then refreshCursorStyle st (N2\<lparr>hoveredId := newHoveredId\<rparr>)
                            else N2);
                      R1 = R\<lparr>r_markers := markers,
                             r_selectedMarkerId := None,
                             r_nearestMarkerId := nearestTargetId N\<rparr>;
                      (N4, R2) = updateGroundCursor st N3 P R1 markers yaw pitch fov;
                      R3 = R2\<lparr>r_cursorNearestMarkerId := cursorNearestTargetId N4\<rparr>;
                      R4 = (if groundGridVisible N
                            then R3\<lparr>r_groundGrid := Some (projectGroundGrid P cfg yaw pitch fov)\<rparr>
                            else R3\<lparr>r_groundGrid := None\<rparr>);
                      R5 = R4\<lparr>r_nearbyMarkers :=
                                 (if nearbyPreviewEnabled N then nearbyMarkers else [])\<rparr>;
                      R6 = render R5
                  in Inr (N4\<lparr>navRenderer := Some R6\<rparr>))
      | _ \<Rightarrow> Inr N)"

subsection \<open>Click dispatch\<close>

text \<open>
  \<open>handleClick\<close> assigns to no variable of the module and to no field of \<open>state\<close>; its
  effect is the list of callbacks it invokes, in order.
\<close>

definition handleClick ::
  "appState \<Rightarrow> navigator \<Rightarrow> real \<Rightarrow> real \<Rightarrow> jsError + callback list" where
  "handleClick st N canvasX canvasY =
     (if \<not> overlayCanvas N then Inr []
      else if setFromClickMode st \<and> truthy (selectedTargetId st)
      then
        (case (onSetFromClickCallback N, projector N) of
           (True, Some P) \<Rightarrow>
             (case screenToGround P canvasX canvasY (currentYaw N) (currentPitch N) (currentFov N) of
                None \<Rightarrow> Inr []
              | Some ground \<Rightarrow>
                  let bearing = atan2 (fst ground) (- snd ground);
                      bearingDeg0 = (bearing * 180) / pi;
                      bearingDeg = (if bearingDeg0 < 0 then bearingDeg0 + 360 else bearingDeg0);
                      distanceM = sqrt (fst ground * fst ground + snd ground * snd ground)
                  in Inr [SetFromClick bearingDeg distanceM])
         | _ \<Rightarrow> Inr [])
      else
        (case hitTester N of
           None \<Rightarrow> Inl TypeError
         | Some H \<Rightarrow>
             (case testPoint H canvasX canvasY of
                None \<Rightarrow> Inr []
              | Some hitMarker \<Rightarrow>
                  if m_type hitMarker = Some Nearby \<and> nearbyPreviewEnabled N \<and> onNearbyClickCallback N
                  then Inr [NearbyClick (m_data hitMarker)]
                  else if m_type hitMarker = Some Navigation \<and> onTargetSelectCallback N
                  then Inr [TargetSelect (m_id hitMarker)]
                  else Inr [])))"

subsection \<open>Initialization\<close>

text \<open>The constructors of the three components.\<close>

definition newProjector :: "real \<Rightarrow> real \<Rightarrow> StreetViewProjector" where
  "newProjector width height =
     \<lparr>canvasWidth = width, canvasHeight = height, p_cameraConfig = None\<rparr>"

definition newRenderer :: StreetViewRenderer where
  "newRenderer =
     \<lparr>r_markers = [], r_nearestMarkerId = None, r_cursorNearestMarkerId = None,
      r_hoveredMarkerId = None, r_selectedMarkerId = None, r_visible = True,
      r_groundCursor = None, r_nearbyMarkers = [], r_groundGrid = None,
      r_hoverAnimation = Map.empty, r_frames = 0\<rparr>"

definition newHitTester :: StreetViewHitTester where
  "newHitTester = \<lparr>ht_markers = []\<rparr>"

text \<open>The module state as the module's top-level declarations initialise it.\<close>

definition moduleState :: navigator where
  "moduleState =
     \<lparr>projector = None, navRenderer = None, hitTester = None, overlayCanvas = False,
      cameraConfig = None, targets = [], nearbyPhotos = [], nearbyPreviewEnabled = False,
      onNearbyClickCallback = False, nearestTargetId = None, cursorNearestTargetId = None,
      groundGridVisible = False, mouseX = 0, mouseY = 0, hoveredId = None,
      currentYaw = 0, currentPitch = 0, currentFov = 75,
      onNavigateCallback = False, onTargetSelectCallback = False,
      onSetFromClickCallback = False, containerCursor = []\<rparr>"

text \<open>
  \<open>initNavigator(container, options)\<close>; \<open>width\<close> and \<open>height\<close> are the client size of
  the container, the three flags say which callbacks \<open>options\<close> supplies.
\<close>

definition initNavigator :: "navigator \<Rightarrow> real \<Rightarrow> real \<Rightarrow> bool \<Rightarrow> bool \<Rightarrow> bool \<Rightarrow> navigator" where
  "initNavigator N width height onNavigate onTargetSelect onSetFromClick =
     N\<lparr>onNavigateCallback := onNavigate,
       onTargetSelectCallback := onTargetSelect,
       onSetFromClickCallback := onSetFromClick,
       overlayCanvas := True,
       projector := Some (newProjector width height),
       navRenderer := Some newRenderer,
       hitTester := Some newHitTester\<rparr>"


text \<open>The empty \<open>state\<close> object of state.js.\<close>

definition initialState :: appState where
  "initialState =
     \<lparr>originalTargetOverrides = Map.empty, editedTargetOverrides = Map.empty,
      originalTargetHidden = Map.empty, editedTargetHidden = Map.empty,
      selectedTargetId = None, setFromClickMode = False\<rparr>"

section \<open>The specification's wording\<close>

text \<open>
  The effective override as the specification words it, for an original override \<open>A\<close> and
  an edited override \<open>B\<close>: \<open>B\<close> when present, where the cleared sentinel (bearing and
  distance both null) resolves to null; else \<open>A\<close>; else null.
\<close>

definition clearedSentinel :: "override \<Rightarrow> bool" where
  "clearedSentinel b = (ov_bearing b = None \<and> ov_distance b = None)"

definition effectiveOverrideSpec :: "override option \<Rightarrow> override option \<Rightarrow> override option" where
  "effectiveOverrideSpec A B =
     (case B of
        Some b \<Rightarrow> if clearedSentinel b then None else Some b
      | None \<Rightarrow> (case A of Some a \<Rightarrow> Some a | None \<Rightarrow> None))"

section \<open>Example configurations\<close>

text \<open>An 800 by 600 canvas whose projector has no camera config yet (default height 2.5 m).\<close>

definition exampleProjector :: StreetViewProjector where
  "exampleProjector = \<lparr>canvasWidth = 800, canvasHeight = 600, p_cameraConfig = None\<rparr>"

text \<open>A camera at (lon 0, lat 0) with heading 0 and height 2.5 m.\<close>

definition exampleCamera :: cameraConfig where
  "exampleCamera =
     \<lparr>cam_heading = Some 0, cam_height = Some 2.5, cam_lon = 0, cam_lat = 0,
      cam_distance_scale = None, cam_marker_scale = None\<rparr>"

text \<open>The orchestrator after \<open>initNavigator\<close> on an 800 by 600 container, all callbacks supplied.\<close>

definition exampleNavigator :: navigator where
  "exampleNavigator = initNavigator moduleState 800 600 True True True"

definition exampleTarget :: target where
  "exampleTarget =
     \<lparr>t_id = ''target-1'', t_lon = 0, t_lat = 0.0001, t_next = Some True,
      t_display_name = None\<rparr>"

text \<open>Two navigation markers drawn at the same pixel, one nearer than the other.\<close>

definition exampleNearMarker :: marker where
  "exampleNearMarker =
     \<lparr>m_id = ''near'', m_screenX = 100, m_screenY = 100, m_distance = 5, m_radius = 20,
      m_flattenY = 0.5, m_type = Some Navigation, m_data = None, m_isNext = None,
      m_hasOverride = Some False, m_isCalibrationSelected = Some False,
      m_isHidden = Some False, m_displayName = ''near''\<rparr>"

definition exampleFarMarker :: marker where
  "exampleFarMarker =
     \<lparr>m_id = ''far'', m_screenX = 100, m_screenY = 100, m_distance = 9, m_radius = 20,
      m_flattenY = 0.5, m_type = Some Navigation, m_data = None, m_isNext = None,
      m_hasOverride = Some False, m_isCalibrationSelected = Some False,
      m_isHidden = Some False, m_displayName = ''far''\<rparr>"

text \<open>
  Stale mode: Set-from-click mode switched on by \<open>setSetFromClickMode\<close> while no target
  is selected.
\<close>

definition staleState :: appState where
  "staleState = setSetFromClickMode initialState True"

text \<open>The example orchestrator whose hit tester holds the near example marker.\<close>

definition clickNavigator :: navigator where
  "clickNavigator =
     exampleNavigator\<lparr>hitTester := Some (ht_setMarkers newHitTester [exampleNearMarker])\<rparr>"






text \<open>A rounding that errs upward by the full unit roundoff of doubles.\<close>

definition exampleRounding :: "real \<Rightarrow> real" where
  "exampleRounding v = v * (1 + 1 / 2 ^ 53)"

section \<open>Properties of the projector\<close>

lemma metersToScreen_unfold:
  "metersToScreen P x y z yaw pitch fov =
     (if rotatedZ x z yaw \<ge> 0
      then \<lparr>screenX = 0, screenY = 0, distance = 0, visible = False\<rparr>
      else if abs_quot_gt (rotatedX x z yaw)
                (- finalZ x y z yaw pitch * tanHalfFov fov * aspectRatio P) (1 + FOV_MARGIN / fov)
              \<or> abs_quot_gt (rotatedY x y z yaw pitch)
                (- finalZ x y z yaw pitch * tanHalfFov fov) (1 + FOV_MARGIN / fov)
      then \<lparr>screenX = 0, screenY = 0, distance = sqrt (x * x + y * y + z * z), visible = False\<rparr>
      else \<lparr>screenX = (rotatedX x z yaw
                          / (- finalZ x y z yaw pitch * tanHalfFov fov * aspectRatio P) + 1)
                        * 0.5 * canvasWidth P,
            screenY = (1 - rotatedY x y z yaw pitch / (- finalZ x y z yaw pitch * tanHalfFov fov))
                        * 0.5 * canvasHeight P,
            distance = sqrt (x * x + y * y + z * z), visible = True\<rparr>)"
  unfolding metersToScreen_def Let_def rotatedX_def rotatedZ_def rotatedY_def finalZ_def
    tanHalfFov_def aspectRatio_def
  by (rule refl)

lemma groundRay_unfold:
  "groundRay P sx sy yaw pitch fov =
     (let ndcX = (sx / canvasWidth P) * 2 - 1;
          ndcY = 1 - (sy / canvasHeight P) * 2;
          rayX = ndcX * tanHalfFov fov * aspectRatio P;
          rayY = ndcY * tanHalfFov fov;
          rayZ = - 1;
          tempY = rayY * cos pitch - rayZ * sin pitch;
          tempZ1 = rayY * sin pitch + rayZ * cos pitch
      in (rayX * cos yaw + tempZ1 * sin yaw, tempY, - rayX * sin yaw + tempZ1 * cos yaw))"
  unfolding groundRay_def Let_def tanHalfFov_def aspectRatio_def
  by (rule refl)

lemma tanHalfFov_pos:
  assumes "0 < fov" "fov < 180"
  shows "0 < tanHalfFov fov"
proof -
  have "0 < fov * pi / 180 / 2" "fov * pi / 180 / 2 < pi / 2" using assms by auto
  then show ?thesis unfolding tanHalfFov_def by (rule tan_gt_zero)
qed

lemma tanHalfFov_90: "tanHalfFov 90 = 1"
  by (simp add: tanHalfFov_def tan_45)

lemma exampleProjector_height: "projCameraHeight exampleProjector = 2.5"
  by (simp add: projCameraHeight_def exampleProjector_def DEFAULT_CAMERA_HEIGHT_def)

lemma exampleProjector_aspect: "aspectRatio exampleProjector = 4 / 3"
  by (simp add: aspectRatio_def exampleProjector_def)

subsection \<open>The distance field\<close>

text \<open>
  Claim C1, as stated, fails: a point that the yaw rotation puts behind the camera
  (\<open>rotatedZ >= 0\<close>) is answered with the fixed object
  \<open>{screenX: 0, screenY: 0, distance: 0, visible: false}\<close>, whose distance is 0 and not
  the Euclidean distance. The point (0, 0, 1) at yaw 0 is one metre behind the camera.
\<close>

theorem C1_distance_behind_camera_counterexample:
  "distance (metersToScreen exampleProjector 0 0 1 0 0 75) \<noteq> sqrt (0 * 0 + 0 * 0 + 1 * 1)"
  by (simp add: metersToScreen_unfold rotatedZ_def)

text \<open>
  Claim C1, amended: whenever the point is not rejected as behind the camera
  (\<open>rotatedZ < 0\<close>), the distance field is the Euclidean distance
  \<open>sqrt (x\<^sup>2 + y\<^sup>2 + z\<^sup>2)\<close>, also when the result is invisible because it lies outside
  the field of view; a point behind the camera (\<open>rotatedZ >= 0\<close>) gets the fixed result
  with distance 0.
\<close>

theorem C1_distance_euclidean_unless_behind:
  "(rotatedZ x z yaw < 0 \<longrightarrow>
      distance (metersToScreen P x y z yaw pitch fov) = sqrt (x * x + y * y + z * z)) \<and>
   (rotatedZ x z yaw \<ge> 0 \<longrightarrow>
      metersToScreen P x y z yaw pitch fov
        = \<lparr>screenX = 0, screenY = 0, distance = 0, visible = False\<rparr>)"
  by (simp add: metersToScreen_unfold)

text \<open>
  The point (1000, 0, -1) at yaw 0, pitch 0, fov 90 is in front of the camera and far
  outside the field of view: invisible, and its distance is still the Euclidean one.
\<close>

theorem C1_distance_euclidean_unless_behind_witness:
  "rotatedZ 1000 (- 1) 0 < 0 \<and>
   \<not> visible (metersToScreen exampleProjector 1000 0 (- 1) 0 0 90) \<and>
   distance (metersToScreen exampleProjector 1000 0 (- 1) 0 0 90)
     = sqrt (1000 * 1000 + 0 * 0 + (- 1) * (- 1))"
proof -
  have r: "rotatedZ 1000 (- 1) 0 < 0" by (simp add: rotatedZ_def)
  have "abs_quot_gt (rotatedX 1000 (- 1) 0)
          (- finalZ 1000 0 (- 1) 0 0 * tanHalfFov 90 * aspectRatio exampleProjector)
          (1 + FOV_MARGIN / 90)"
    by (simp add: abs_quot_gt_def rotatedX_def finalZ_def rotatedZ_def tanHalfFov_90
          exampleProjector_aspect FOV_MARGIN_def)
  then have v: "\<not> visible (metersToScreen exampleProjector 1000 0 (- 1) 0 0 90)"
    by (simp add: metersToScreen_unfold)
  from r v C1_distance_euclidean_unless_behind[of 1000 "- 1" 0 exampleProjector 0 0 90]
  show ?thesis by blast
qed

subsection \<open>Back-projection onto the ground\<close>

text \<open>
  Claim C10: with a strictly positive camera height, \<open>screenToGround\<close> returns a ground
  point exactly when the Y component of the fully de-rotated ray is strictly negative, and
  then the intersection parameter \<open>t = -cameraHeight / rayY\<close> is strictly positive, so the
  branch \<open>t < 0\<close> is not taken. The canvas is taken to have positive width and height;
  a zero dimension makes the division in the code yield an infinity or NaN, outside this
  model.
\<close>

theorem C10_screenToGround_some_iff_ray_down:
  assumes "0 < projCameraHeight P" and "0 < canvasWidth P" and "0 < canvasHeight P"
  shows "(screenToGround P sx sy yaw pitch fov \<noteq> None)
           = (fst (snd (groundRay P sx sy yaw pitch fov)) < 0) \<and>
         (fst (snd (groundRay P sx sy yaw pitch fov)) < 0 \<longrightarrow>
            0 < - projCameraHeight P / fst (snd (groundRay P sx sy yaw pitch fov)))"
proof -
  obtain rx ry rz where r: "groundRay P sx sy yaw pitch fov = (rx, ry, rz)"
    by (cases "groundRay P sx sy yaw pitch fov") auto
  have pos: "ry < 0 \<Longrightarrow> 0 < - projCameraHeight P / ry"
    using assms(1) by (simp add: divide_pos_neg)
  show ?thesis
  proof (cases "ry < 0")
    case True
    with pos[OF True] show ?thesis
      by (simp add: screenToGround_def r Let_def not_less not_le)
  next
    case False
    then show ?thesis
      by (simp add: screenToGround_def r Let_def not_less)
  qed
qed

text \<open>
  At the bottom centre pixel of the example canvas, looking horizontally, the ray points
  down and the ground point exists.
\<close>

theorem C10_screenToGround_some_iff_ray_down_witness:
  "0 < projCameraHeight exampleProjector \<and> 0 < canvasWidth exampleProjector
   \<and> 0 < canvasHeight exampleProjector
   \<and> fst (snd (groundRay exampleProjector 400 600 0 0 90)) < 0
   \<and> screenToGround exampleProjector 400 600 0 0 90 \<noteq> None
   \<and> 0 < - projCameraHeight exampleProjector / fst (snd (groundRay exampleProjector 400 600 0 0 90))"
proof -
  have h: "0 < projCameraHeight exampleProjector" by (simp add: exampleProjector_height)
  have w: "0 < canvasWidth exampleProjector" "0 < canvasHeight exampleProjector"
    by (simp_all add: exampleProjector_def)
  have ray: "fst (snd (groundRay exampleProjector 400 600 0 0 90)) < 0"
    by (simp add: groundRay_unfold Let_def tanHalfFov_90 exampleProjector_def)
  from C10_screenToGround_some_iff_ray_down[OF h w, of 400 600 0 0 90] ray h w
  show ?thesis by blast
qed

subsection \<open>Visibility and the field of view\<close>

lemma sin_cos_le_arg:
  fixes u :: real
  assumes "0 \<le> u" "u < pi / 2"
  shows "sin u * cos u \<le> u"
proof -
  have s: "sin u \<le> u" using assms by (simp add: sin_x_le_x)
  have s0: "0 \<le> sin u" using assms by (simp add: sin_ge_zero)
  have "sin u * cos u \<le> sin u * 1"
    using s0 by (intro mult_left_mono) simp_all
  then show ?thesis using s by simp
qed

lemma tan_le_arg_sec:
  fixes u :: real
  assumes "0 \<le> u" "u < pi / 2"
  shows "tan u \<le> u * inverse ((cos u)\<^sup>2)"
proof -
  have c: "0 < cos u" using assms by (simp add: cos_gt_zero_pi)
  have "tan u = (sin u * cos u) * inverse ((cos u)\<^sup>2)"
    using c by (simp add: tan_def power2_eq_square field_simps)
  also have "\<dots> \<le> u * inverse ((cos u)\<^sup>2)"
    using sin_cos_le_arg[OF assms] c by (intro mult_right_mono) simp_all
  finally show ?thesis .
qed

text \<open>
  The half-width of the accepted region, \<open>tan(fov / 2) * (1 + 5 / fov)\<close> in units of
  depth, has a non-negative derivative for fov between 0 and 180 degrees.
\<close>

lemma tan_margin_deriv:
  fixes f :: real
  assumes "0 < f" "f < 180"
  shows "\<exists>y. DERIV (\<lambda>f. tan (f * pi / 360) * (1 + 5 / f)) f :> y \<and> 0 \<le> y"
proof -
  define u where "u = f * pi / 360"
  have u: "0 \<le> u" "u < pi / 2" using assms by (auto simp: u_def)
  have c: "0 < cos u" using u by (simp add: cos_gt_zero_pi)
  define s where "s = inverse ((cos u)\<^sup>2)"
  have s: "0 < s" using c by (simp add: s_def)
  have d: "DERIV (\<lambda>f. tan (f * pi / 360) * (1 + 5 / f)) f :>
      (pi / 360) * s * (1 + 5 / f) + tan u * (- 5 / f\<^sup>2)"
    unfolding s_def u_def
    using c assms by (auto intro!: derivative_eq_intros simp: u_def field_simps power2_eq_square)
  have t: "tan u \<le> u * s" unfolding s_def by (rule tan_le_arg_sec[OF u])
  have "tan u * (5 / f\<^sup>2) \<le> (u * s) * (5 / f\<^sup>2)"
    using t assms by (intro mult_right_mono) simp_all
  also have "\<dots> = (pi / 360) * s * (5 / f)"
    using assms by (simp add: u_def power2_eq_square field_simps)
  finally have "tan u * (5 / f\<^sup>2) \<le> (pi / 360) * s * (5 / f)" .
  moreover have "0 \<le> (pi / 360) * s" using s by simp
  moreover have "(pi / 360) * s * (1 + 5 / f) + tan u * (- 5 / f\<^sup>2)
      = (pi / 360) * s + ((pi / 360) * s * (5 / f) - tan u * (5 / f\<^sup>2))"
    by (simp add: algebra_simps)
  ultimately have "0 \<le> (pi / 360) * s * (1 + 5 / f) + tan u * (- 5 / f\<^sup>2)"
    by linarith
  with d show ?thesis by blast
qed

lemma tan_margin_mono:
  fixes f1 f2 :: real
  assumes "0 < f1" "f1 \<le> f2" "f2 < 180"
  shows "tanHalfFov f1 * (1 + FOV_MARGIN / f1) \<le> tanHalfFov f2 * (1 + FOV_MARGIN / f2)"
proof -
  have "tan (f1 * pi / 360) * (1 + 5 / f1) \<le> tan (f2 * pi / 360) * (1 + 5 / f2)"
  proof (rule DERIV_nonneg_imp_nondecreasing[of f1 f2 "\<lambda>f. tan (f * pi / 360) * (1 + 5 / f)"])
    show "f1 \<le> f2" by fact
  next
    fix x assume "f1 \<le> x" "x \<le> f2"
    then have "0 < x" "x < 180" using assms by auto
    then show "\<exists>y. DERIV (\<lambda>f. tan (f * pi / 360) * (1 + 5 / f)) x :> y \<and> 0 \<le> y"
      by (rule tan_margin_deriv)
  qed
  then show ?thesis by (simp add: tanHalfFov_def FOV_MARGIN_def)
qed

lemma in_range_mono:
  fixes n fz k T1 T2 b1 b2 :: real
  assumes k: "0 < k" and T1: "0 < T1" and T2: "0 < T2"
    and le: "T1 * b1 \<le> T2 * b2"
    and a: "\<not> abs_quot_gt n (- fz * T1 * k) b1"
  shows "\<not> abs_quot_gt n (- fz * T2 * k) b2"
proof (cases "fz = 0")
  case True
  with a show ?thesis by (simp add: abs_quot_gt_def)
next
  case False
  then have fz: "0 < \<bar>fz\<bar>" by simp
  from a False k T1 have "\<bar>n / (- fz * T1 * k)\<bar> \<le> b1"
    by (simp add: abs_quot_gt_def not_less)
  then have "\<bar>n\<bar> / (\<bar>fz\<bar> * T1 * k) \<le> b1"
    using k T1 by (simp add: abs_mult)
  then have "\<bar>n\<bar> \<le> b1 * (\<bar>fz\<bar> * T1 * k)"
    using k T1 fz by (simp add: pos_divide_le_eq)
  also have "\<dots> = (T1 * b1) * (\<bar>fz\<bar> * k)" by simp
  also have "\<dots> \<le> (T2 * b2) * (\<bar>fz\<bar> * k)"
    using le k fz by (intro mult_right_mono) simp_all
  also have "\<dots> = b2 * (\<bar>fz\<bar> * T2 * k)" by simp
  finally have "\<bar>n\<bar> / (\<bar>fz\<bar> * T2 * k) \<le> b2"
    using k T2 fz by (simp add: pos_divide_le_eq)
  then have "\<bar>n / (- fz * T2 * k)\<bar> \<le> b2"
    using k T2 by (simp add: abs_mult)
  then show ?thesis using False k T2 by (simp add: abs_quot_gt_def not_less)
qed

lemma visible_iff:
  "visible (metersToScreen P x y z yaw pitch fov) =
     (rotatedZ x z yaw < 0 \<and>
      \<not> abs_quot_gt (rotatedX x z yaw)
           (- finalZ x y z yaw pitch * tanHalfFov fov * aspectRatio P) (1 + FOV_MARGIN / fov) \<and>
      \<not> abs_quot_gt (rotatedY x y z yaw pitch)
           (- finalZ x y z yaw pitch * tanHalfFov fov * 1) (1 + FOV_MARGIN / fov))"
  by (simp add: metersToScreen_unfold not_le)

text \<open>
  Visibility is monotone in the fov over the reals: for a fixed world point and a fixed
  (yaw, pitch), a point inside the accepted region at fov \<open>f1\<close> is inside it at every
  larger fov \<open>f2\<close>, for fov between 0 and 180 degrees and a canvas of positive width and
  height. This is a fact of the exact rim test \<open>\<bar>ndc\<bar> > 1 + 5 / fov\<close>. In the code's
  doubles \<open>Math.tan\<close> and the quotients are rounded, and a point within a rounding
  error of the rim can pass the test at one fov and fail it at the next larger double.
\<close>

lemma visible_monotone_in_fov_over_reals:
  assumes W: "0 < canvasWidth P" and H: "0 < canvasHeight P"
    and f: "0 < f1" "f1 < f2" "f2 < 180"
    and v: "visible (metersToScreen P x y z yaw pitch f1)"
  shows "visible (metersToScreen P x y z yaw pitch f2)"
proof -
  have a: "0 < aspectRatio P" using W H by (simp add: aspectRatio_def)
  have T1: "0 < tanHalfFov f1" using f by (intro tanHalfFov_pos) auto
  have T2: "0 < tanHalfFov f2" using f by (intro tanHalfFov_pos) auto
  have le: "tanHalfFov f1 * (1 + FOV_MARGIN / f1) \<le> tanHalfFov f2 * (1 + FOV_MARGIN / f2)"
    using tan_margin_mono[of f1 f2] f by simp
  from v show ?thesis
    unfolding visible_iff
    using in_range_mono[OF a T1 T2 le] in_range_mono[OF zero_less_one T1 T2 le]
    by blast
qed

text \<open>
  The point ten metres ahead on the ground, seen with the default camera height, is
  visible at fov 90, and so at fov 120.
\<close>

lemma visible_monotone_in_fov_example:
  "0 < canvasWidth exampleProjector \<and> 0 < canvasHeight exampleProjector
   \<and> (0::real) < 90 \<and> (90::real) < 120 \<and> (120::real) < 180
   \<and> visible (metersToScreen exampleProjector 0 (- 2.5) (- 10) 0 0 90)
   \<and> visible (metersToScreen exampleProjector 0 (- 2.5) (- 10) 0 0 120)"
proof -
  have w: "0 < canvasWidth exampleProjector" "0 < canvasHeight exampleProjector"
    by (simp_all add: exampleProjector_def)
  have v: "visible (metersToScreen exampleProjector 0 (- 2.5) (- 10) 0 0 90)"
    by (simp add: visible_iff rotatedZ_def rotatedX_def rotatedY_def finalZ_def
          abs_quot_gt_def tanHalfFov_90 exampleProjector_aspect FOV_MARGIN_def)
  from visible_monotone_in_fov_over_reals[OF w _ _ _ v, of 120] v w
  show ?thesis by simp
qed

subsection \<open>Round trip through the screen\<close>

lemma unrotate_pitch:
  fixes y rZ pitch :: real
  defines "rY \<equiv> y * cos (- pitch) - rZ * sin (- pitch)"
    and "fZ \<equiv> y * sin (- pitch) + rZ * cos (- pitch)"
  shows "rY * cos pitch - fZ * sin pitch = y"
    and "rY * sin pitch + fZ * cos pitch = rZ"
proof -
  have p: "cos pitch * cos pitch + sin pitch * sin pitch = 1"
    using sin_cos_squared_add2[of pitch] by (simp add: power2_eq_square)
  have p': "w * (cos pitch * cos pitch) + w * (sin pitch * sin pitch) = w" for w :: real
    using p by (metis distrib_left mult.right_neutral)
  show "rY * cos pitch - fZ * sin pitch = y"
    using p'[of y] by (simp add: rY_def fZ_def algebra_simps)
  show "rY * sin pitch + fZ * cos pitch = rZ"
    using p'[of rZ] by (simp add: rY_def fZ_def algebra_simps)
qed

lemma unrotate_yaw:
  fixes x z yaw :: real
  defines "rX \<equiv> x * cos yaw - z * sin yaw"
    and "rZ \<equiv> x * sin yaw + z * cos yaw"
  shows "rX * cos yaw + rZ * sin yaw = x"
    and "- rX * sin yaw + rZ * cos yaw = z"
proof -
  have q: "cos yaw * cos yaw + sin yaw * sin yaw = 1"
    using sin_cos_squared_add2[of yaw] by (simp add: power2_eq_square)
  have q': "w * (cos yaw * cos yaw) + w * (sin yaw * sin yaw) = w" for w :: real
    using q by (metis distrib_left mult.right_neutral)
  show "rX * cos yaw + rZ * sin yaw = x"
    using q'[of x] by (simp add: rX_def rZ_def algebra_simps)
  show "- rX * sin yaw + rZ * cos yaw = z"
    using q'[of z] by (simp add: rX_def rZ_def algebra_simps)
qed

lemma ndc_of_screenX:
  fixes N W :: real
  assumes "W \<noteq> 0"
  shows "(((N + 1) * 0.5 * W) / W) * 2 - 1 = N"
  using assms by (simp add: field_simps)

lemma ndc_of_screenY:
  fixes N H :: real
  assumes "H \<noteq> 0"
  shows "1 - (((1 - N) * 0.5 * H) / H) * 2 = N"
  using assms by (simp add: field_simps)

text \<open>
  The ray through the pixel of a projected point is the point itself, scaled by the
  inverse of its depth \<open>d = - finalZ\<close>.
\<close>

lemma groundRay_projected:
  fixes x y z yaw pitch fov :: real
  assumes W: "0 < canvasWidth P" and H: "0 < canvasHeight P"
    and T: "0 < tanHalfFov fov"
    and k: "finalZ x y z yaw pitch < 0"
  defines "d \<equiv> - finalZ x y z yaw pitch"
  shows "groundRay P
           ((rotatedX x z yaw / (d * tanHalfFov fov * aspectRatio P) + 1) * 0.5 * canvasWidth P)
           ((1 - rotatedY x y z yaw pitch / (d * tanHalfFov fov)) * 0.5 * canvasHeight P)
           yaw pitch fov
         = (x / d, y / d, z / d)"
proof -
  define rX where "rX = rotatedX x z yaw"
  define rZ where "rZ = rotatedZ x z yaw"
  define rY where "rY = rotatedY x y z yaw pitch"
  define fZ where "fZ = finalZ x y z yaw pitch"
  define Tn where "Tn = tanHalfFov fov"
  define a where "a = aspectRatio P"
  have d: "fZ = - d" "0 < d" using k by (simp_all add: d_def fZ_def)
  have a: "0 < a" using W H by (simp add: a_def aspectRatio_def)
  have Tn: "0 < Tn" using T by (simp add: Tn_def)
  have rayX: "(rX / (d * Tn * a)) * Tn * a = rX / d"
    using a Tn d by simp
  have rayY: "(rY / (d * Tn)) * Tn = rY / d"
    using Tn d by simp
  have un: "rY * cos pitch - fZ * sin pitch = y" "rY * sin pitch + fZ * cos pitch = rZ"
    using unrotate_pitch[of y pitch rZ]
    by (simp_all only: rY_def fZ_def rZ_def rotatedY_def finalZ_def)
  have un2: "rX * cos yaw + rZ * sin yaw = x" "- rX * sin yaw + rZ * cos yaw = z"
    using unrotate_yaw[of x yaw z]
    by (simp_all only: rX_def rZ_def rotatedX_def rotatedZ_def)
  have e1: "(rY / d) * cos pitch - (- 1) * sin pitch = y / d"
  proof -
    have "(rY / d) * cos pitch - (- 1) * sin pitch = (rY * cos pitch - fZ * sin pitch) / d"
      using d by (simp add: field_simps)
    then show ?thesis by (simp only: un)
  qed
  have e2: "(rY / d) * sin pitch + (- 1) * cos pitch = rZ / d"
  proof -
    have "(rY / d) * sin pitch + (- 1) * cos pitch = (rY * sin pitch + fZ * cos pitch) / d"
      using d by (simp add: field_simps)
    then show ?thesis by (simp only: un)
  qed
  have e3: "(rX / d) * cos yaw + (rZ / d) * sin yaw = x / d"
  proof -
    have "(rX / d) * cos yaw + (rZ / d) * sin yaw = (rX * cos yaw + rZ * sin yaw) / d"
      by (simp add: add_divide_distrib)
    then show ?thesis by (simp only: un2)
  qed
  have e4: "- (rX / d) * sin yaw + (rZ / d) * cos yaw = z / d"
  proof -
    have "- (rX / d) * sin yaw + (rZ / d) * cos yaw = (- rX * sin yaw + rZ * cos yaw) / d"
      by (simp add: diff_divide_distrib)
    then show ?thesis by (simp only: un2)
  qed
  have W0: "canvasWidth P \<noteq> 0" and H0: "canvasHeight P \<noteq> 0" using W H by simp_all
  show ?thesis
    unfolding groundRay_unfold Let_def
    by (simp only: ndc_of_screenX[OF W0] ndc_of_screenY[OF H0]
          rX_def[symmetric] rY_def[symmetric] Tn_def[symmetric] a_def[symmetric]
          rayX rayY e1 e2 e3 e4)
qed

lemma screenToGround_ray_up:
  assumes "0 \<le> fst (snd (groundRay P sx sy yaw pitch fov))"
  shows "screenToGround P sx sy yaw pitch fov = None"
proof -
  obtain rx ry rz where r: "groundRay P sx sy yaw pitch fov = (rx, ry, rz)"
    by (cases "groundRay P sx sy yaw pitch fov") auto
  with assms show ?thesis by (simp add: screenToGround_def Let_def)
qed

text \<open>
  Claim C4, as stated, fails: \<open>z < 0\<close> in world coordinates does not put the point in
  front of the camera. With the camera turned by yaw \<open>pi\<close>, the ground point (0, -10)
  is behind it; \<open>metersToScreen\<close> answers with the fixed invisible result at pixel (0, 0),
  the ray through that pixel points upward, and \<open>screenToGround\<close> returns null.
\<close>

theorem C4_round_trip_counterexample:
  "(- 10 :: real) < 0 \<and>
   screenToGround exampleProjector
     (screenX (metersToScreen exampleProjector 0 (- projCameraHeight exampleProjector) (- 10) pi 0 75))
     (screenY (metersToScreen exampleProjector 0 (- projCameraHeight exampleProjector) (- 10) pi 0 75))
     pi 0 75
   \<noteq> Some (0, - 10)"
proof -
  have m: "metersToScreen exampleProjector 0 (- projCameraHeight exampleProjector) (- 10) pi 0 75
             = \<lparr>screenX = 0, screenY = 0, distance = 0, visible = False\<rparr>"
    by (simp add: metersToScreen_unfold rotatedZ_def)
  have T: "0 < tanHalfFov 75" by (rule tanHalfFov_pos) simp_all
  have "fst (snd (groundRay exampleProjector 0 0 pi 0 75)) = tanHalfFov 75"
    by (simp add: groundRay_unfold Let_def exampleProjector_def)
  with T have "screenToGround exampleProjector 0 0 pi 0 75 = None"
    by (intro screenToGround_ray_up) simp
  then show ?thesis by (simp add: m)
qed

text \<open>
  Claim C4, amended: for a canvas of positive width and height, a fov between 0 and 180
  degrees and a positive camera height, if \<open>metersToScreen\<close> reports the ground point
  \<open>(x, -cameraHeight, z)\<close> visible and the point lies in front of the camera plane after
  both rotations (\<open>finalZ < 0\<close>), then \<open>screenToGround\<close> at the resulting pixel returns
  exactly \<open>(x, z)\<close> (over the reals).
\<close>

theorem C4_round_trip_visible_in_front:
  assumes W: "0 < canvasWidth P" and H: "0 < canvasHeight P"
    and fov: "0 < fov" "fov < 180"
    and h: "0 < projCameraHeight P"
    and vis: "visible (metersToScreen P x (- projCameraHeight P) z yaw pitch fov)"
    and front: "finalZ x (- projCameraHeight P) z yaw pitch < 0"
  shows "screenToGround P
           (screenX (metersToScreen P x (- projCameraHeight P) z yaw pitch fov))
           (screenY (metersToScreen P x (- projCameraHeight P) z yaw pitch fov))
           yaw pitch fov = Some (x, z)"
proof -
  define y where "y = - projCameraHeight P"
  define d where "d = - finalZ x y z yaw pitch"
  have d: "0 < d" using front by (simp add: d_def y_def)
  have T: "0 < tanHalfFov fov" using fov by (rule tanHalfFov_pos)
  from vis have sx: "screenX (metersToScreen P x y z yaw pitch fov) =
      (rotatedX x z yaw / (d * tanHalfFov fov * aspectRatio P) + 1) * 0.5 * canvasWidth P"
    and sy: "screenY (metersToScreen P x y z yaw pitch fov) =
      (1 - rotatedY x y z yaw pitch / (d * tanHalfFov fov)) * 0.5 * canvasHeight P"
    unfolding y_def[symmetric] d_def metersToScreen_unfold
    by (simp_all split: if_splits)
  have ray: "groundRay P (screenX (metersToScreen P x y z yaw pitch fov))
      (screenY (metersToScreen P x y z yaw pitch fov)) yaw pitch fov = (x / d, y / d, z / d)"
    unfolding sx sy d_def
    using front by (intro groundRay_projected[OF W H T]) (simp add: y_def)
  have yd: "y / d < 0" using d h by (simp add: y_def divide_neg_pos)
  have t: "- projCameraHeight P / (y / d) = d" using h d by (simp add: y_def)
  show ?thesis
    unfolding y_def[symmetric] screenToGround_def Let_def ray
    using yd d t by (simp add: y_def)
qed

text \<open>The ground point ten metres ahead of a camera that looks horizontally, at fov 90.\<close>

theorem C4_round_trip_visible_in_front_witness:
  "0 < canvasWidth exampleProjector \<and> 0 < canvasHeight exampleProjector
   \<and> (0::real) < 90 \<and> (90::real) < 180 \<and> 0 < projCameraHeight exampleProjector
   \<and> visible (metersToScreen exampleProjector 0 (- projCameraHeight exampleProjector) (- 10) 0 0 90)
   \<and> finalZ 0 (- projCameraHeight exampleProjector) (- 10) 0 0 < 0
   \<and> screenToGround exampleProjector
        (screenX (metersToScreen exampleProjector 0 (- projCameraHeight exampleProjector) (- 10) 0 0 90))
        (screenY (metersToScreen exampleProjector 0 (- projCameraHeight exampleProjector) (- 10) 0 0 90))
        0 0 90 = Some (0, - 10)"
proof -
  have w: "0 < canvasWidth exampleProjector" "0 < canvasHeight exampleProjector"
    by (simp_all add: exampleProjector_def)
  have h: "0 < projCameraHeight exampleProjector" by (simp add: exampleProjector_height)
  have v: "visible (metersToScreen exampleProjector 0 (- projCameraHeight exampleProjector) (- 10) 0 0 90)"
    by (simp add: visible_iff rotatedZ_def rotatedX_def rotatedY_def finalZ_def
          abs_quot_gt_def tanHalfFov_90 exampleProjector_aspect exampleProjector_height
          FOV_MARGIN_def)
  have f: "finalZ 0 (- projCameraHeight exampleProjector) (- 10) 0 0 < 0"
    by (simp add: finalZ_def rotatedZ_def)
  from C4_round_trip_visible_in_front[OF w _ _ h v f] v f w h
  show ?thesis by simp
qed

text \<open>
  Visibility alone does not put a point in front of the camera plane. With the camera
  looking straight up, the ground point one metre ahead has positive depth
  (\<open>finalZ = 2.5\<close>); the perspective division mirrors it onto the screen, the code
  reports it visible at pixel (400, 180), and the ray through that pixel points upward.
\<close>

lemma round_trip_needs_negative_depth:
  "visible (metersToScreen exampleProjector 0 (- projCameraHeight exampleProjector) (- 1) 0 (pi / 2) 90)
   \<and> 0 < finalZ 0 (- projCameraHeight exampleProjector) (- 1) 0 (pi / 2)
   \<and> screenToGround exampleProjector
        (screenX (metersToScreen exampleProjector 0 (- projCameraHeight exampleProjector) (- 1) 0 (pi / 2) 90))
        (screenY (metersToScreen exampleProjector 0 (- projCameraHeight exampleProjector) (- 1) 0 (pi / 2) 90))
        0 (pi / 2) 90 = None"
proof -
  have rz: "rotatedZ 0 (- 1) 0 = - 1" by (simp add: rotatedZ_def)
  have rx: "rotatedX 0 (- 1) 0 = 0" by (simp add: rotatedX_def)
  have ry: "rotatedY 0 (- 2.5) (- 1) 0 (pi / 2) = - 1" by (simp add: rotatedY_def rz)
  have fz: "finalZ 0 (- 2.5) (- 1) 0 (pi / 2) = 2.5" by (simp add: finalZ_def rz)
  have m: "metersToScreen exampleProjector 0 (- 2.5) (- 1) 0 (pi / 2) 90
      = \<lparr>screenX = 400, screenY = 180,
         distance = sqrt (0 * 0 + (- 2.5) * (- 2.5) + (- 1) * (- 1)), visible = True\<rparr>"
    unfolding metersToScreen_unfold rz rx ry fz tanHalfFov_90 exampleProjector_aspect
    by (simp add: abs_quot_gt_def FOV_MARGIN_def exampleProjector_def)
  have "fst (snd (groundRay exampleProjector 400 180 0 (pi / 2) 90)) = 1"
    by (simp add: groundRay_unfold Let_def tanHalfFov_90 exampleProjector_def)
  then have g: "screenToGround exampleProjector 400 180 0 (pi / 2) 90 = None"
    by (intro screenToGround_ray_up) simp
  show ?thesis
    unfolding exampleProjector_height using m fz g by simp
qed

section \<open>Properties of the calibration state\<close>

text \<open>
  Claim C3: for every original override \<open>A\<close> and edited override \<open>B\<close> of a target (each
  present or absent, \<open>B\<close> possibly the cleared sentinel), \<open>getEffectiveOverride\<close> returns
  what the specification's three-level resolution prescribes.
\<close>

theorem C3_effective_override_resolution:
  "getEffectiveOverride st targetId
     = effectiveOverrideSpec (originalTargetOverrides st targetId) (editedTargetOverrides st targetId)"
  by (simp add: getEffectiveOverride_def effectiveOverrideSpec_def clearedSentinel_def
        split: option.splits)

lemma effectiveOverrideSpec_cases:
  "effectiveOverrideSpec A None = A"
  "clearedSentinel b \<Longrightarrow> effectiveOverrideSpec A (Some b) = None"
  "\<not> clearedSentinel b \<Longrightarrow> effectiveOverrideSpec A (Some b) = Some b"
  by (simp_all add: effectiveOverrideSpec_def split: option.splits)

text \<open>
  A target with an original override only; then edited; then the edit cleared by
  \<open>clearTargetOverrideEdit\<close>, which stores the sentinel.
\<close>

theorem C3_effective_override_resolution_witness:
  "getEffectiveOverride
     (initialState\<lparr>originalTargetOverrides :=
        [''t'' \<mapsto> \<lparr>ov_bearing = Some 90, ov_distance = Some 5, ov_height = Some 0\<rparr>]\<rparr>) ''t''
     = Some \<lparr>ov_bearing = Some 90, ov_distance = Some 5, ov_height = Some 0\<rparr>
   \<and> getEffectiveOverride
     (setTargetOverride (initialState\<lparr>originalTargetOverrides :=
        [''t'' \<mapsto> \<lparr>ov_bearing = Some 90, ov_distance = Some 5, ov_height = Some 0\<rparr>]\<rparr>)
        ''t'' 45 7 1) ''t''
     = Some \<lparr>ov_bearing = Some 45, ov_distance = Some 7, ov_height = Some 1\<rparr>
   \<and> getEffectiveOverride
     (clearTargetOverrideEdit (initialState\<lparr>originalTargetOverrides :=
        [''t'' \<mapsto> \<lparr>ov_bearing = Some 90, ov_distance = Some 5, ov_height = Some 0\<rparr>]\<rparr>) ''t'') ''t''
     = None
   \<and> getEffectiveOverride initialState ''t'' = None"
  unfolding C3_effective_override_resolution
  by (simp add: effectiveOverrideSpec_def clearedSentinel_def initialState_def
        setTargetOverride_def clearTargetOverrideEdit_def)

section \<open>Properties of target projection\<close>

text \<open>
  The override path is the direct projection of the point its conversion yields: for
  every bearing, distance and height, \<open>projectFromOverride\<close> gives no marker exactly when
  \<open>metersToScreen\<close> reports the converted point invisible, and otherwise a marker with
  that projection's screen coordinates and distance.
\<close>

lemma override_path_projects_converted_point:
  "(case projectFromOverride st P (Some cfg) b d tgt yaw pitch fov h of
      None \<Rightarrow> \<not> visible (metersToScreen P (sin ((b * pi) / 180) * d)
                             (- configCameraHeight cfg + h) (- cos ((b * pi) / 180) * d)
                             yaw pitch fov)
    | Some m \<Rightarrow>
        visible (metersToScreen P (sin ((b * pi) / 180) * d)
                   (- configCameraHeight cfg + h) (- cos ((b * pi) / 180) * d) yaw pitch fov)
        \<and> m_screenX m = screenX (metersToScreen P (sin ((b * pi) / 180) * d)
                   (- configCameraHeight cfg + h) (- cos ((b * pi) / 180) * d) yaw pitch fov)
        \<and> m_screenY m = screenY (metersToScreen P (sin ((b * pi) / 180) * d)
                   (- configCameraHeight cfg + h) (- cos ((b * pi) / 180) * d) yaw pitch fov)
        \<and> m_distance m = distance (metersToScreen P (sin ((b * pi) / 180) * d)
                   (- configCameraHeight cfg + h) (- cos ((b * pi) / 180) * d) yaw pitch fov))"
  unfolding projectFromOverride_def Let_def option.case
  by simp

lemma projectFromOverride_east5:
  "projectFromOverride st P (Some cfg) 90 5 tgt yaw pitch fov 0 =
     (let projected = metersToScreen P 5 (- configCameraHeight cfg) 0 yaw pitch fov
      in if \<not> visible projected then None
         else Some \<lparr>m_id = t_id tgt,
                   m_screenX = screenX projected,
                   m_screenY = screenY projected,
                   m_distance = distance projected,
                   m_radius = calculateMarkerSize P MARKER_WORLD_RADIUS 5 fov,
                   m_flattenY = calculateFlattenRatio P 5 pitch,
                   m_type = None,
                   m_data = None,
                   m_isNext = t_next tgt,
                   m_hasOverride = Some True,
                   m_isCalibrationSelected = Some (Some (t_id tgt) = selectedTargetId st),
                   m_isHidden = Some (isTargetHidden st (t_id tgt)),
                   m_displayName = displayNameOr (t_display_name tgt) (t_id tgt)\<rparr>)"
proof -
  have a: "(90 * pi) / 180 = pi / 2" by simp
  have x: "sin ((90 * pi) / 180) * 5 = (5::real)" unfolding a by simp
  have z: "- cos ((90 * pi) / 180) * 5 = (0::real)" unfolding a by simp
  show ?thesis
    unfolding projectFromOverride_def Let_def option.case x z
    by simp
qed

text \<open>
  Over the reals, where \<open>sin (pi / 2) = 1\<close> and \<open>cos (pi / 2) = 0\<close>: a target whose
  effective override is \<open>{bearing: 90, distance: 5, height: 0}\<close> is projected by
  \<open>projectTarget\<close> through \<open>projectFromOverride\<close>, and the result agrees with
  \<open>metersToScreen\<close> on the ground point \<open>(x = 5, y = -cameraHeight, z = 0)\<close>: no marker
  exactly when the direct projection is invisible, otherwise a marker with the same
  screen coordinates (and distance). In the code's doubles \<open>Math.cos(90 * Math.PI / 180)\<close>
  is a rounding error away from zero, and the converted point is not \<open>(5, 0)\<close>.
\<close>

lemma override_equals_direct_projection_over_reals:
  assumes "getEffectiveOverride st (t_id tgt)
             = Some \<lparr>ov_bearing = Some 90, ov_distance = Some 5, ov_height = Some 0\<rparr>"
  shows "projectTarget st P (Some cfg) tgt yaw pitch fov
           = projectFromOverride st P (Some cfg) 90 5 tgt yaw pitch fov 0
         \<and> (case projectFromOverride st P (Some cfg) 90 5 tgt yaw pitch fov 0 of
               None \<Rightarrow> \<not> visible (metersToScreen P 5 (- configCameraHeight cfg) 0 yaw pitch fov)
             | Some m \<Rightarrow>
                 visible (metersToScreen P 5 (- configCameraHeight cfg) 0 yaw pitch fov)
                 \<and> m_screenX m = screenX (metersToScreen P 5 (- configCameraHeight cfg) 0 yaw pitch fov)
                 \<and> m_screenY m = screenY (metersToScreen P 5 (- configCameraHeight cfg) 0 yaw pitch fov)
                 \<and> m_distance m = distance (metersToScreen P 5 (- configCameraHeight cfg) 0 yaw pitch fov))"
proof -
  have "projectTarget st P (Some cfg) tgt yaw pitch fov
          = projectFromOverride st P (Some cfg) 90 5 tgt yaw pitch fov 0"
    by (simp add: projectTarget_def assms)
  moreover have "case projectFromOverride st P (Some cfg) 90 5 tgt yaw pitch fov 0 of
               None \<Rightarrow> \<not> visible (metersToScreen P 5 (- configCameraHeight cfg) 0 yaw pitch fov)
             | Some m \<Rightarrow>
                 visible (metersToScreen P 5 (- configCameraHeight cfg) 0 yaw pitch fov)
                 \<and> m_screenX m = screenX (metersToScreen P 5 (- configCameraHeight cfg) 0 yaw pitch fov)
                 \<and> m_screenY m = screenY (metersToScreen P 5 (- configCameraHeight cfg) 0 yaw pitch fov)
                 \<and> m_distance m = distance (metersToScreen P 5 (- configCameraHeight cfg) 0 yaw pitch fov)"
    unfolding projectFromOverride_east5 Let_def by simp
  ultimately show ?thesis by blast
qed

lemma east5_projection:
  "metersToScreen exampleProjector 5 (- configCameraHeight exampleCamera) 0 (- (pi / 2)) 0 90
     = \<lparr>screenX = 400, screenY = 450, distance = sqrt (5 * 5 + 2.5 * 2.5 + 0 * 0), visible = True\<rparr>"
proof -
  have h: "configCameraHeight exampleCamera = 2.5"
    by (simp add: configCameraHeight_def exampleCamera_def)
  have rz: "rotatedZ 5 0 (- (pi / 2)) = - 5" by (simp add: rotatedZ_def)
  have rx: "rotatedX 5 0 (- (pi / 2)) = 0" by (simp add: rotatedX_def)
  have ry: "rotatedY 5 (- 2.5) 0 (- (pi / 2)) 0 = - 2.5" by (simp add: rotatedY_def rz)
  have fz: "finalZ 5 (- 2.5) 0 (- (pi / 2)) 0 = - 5" by (simp add: finalZ_def rz)
  show ?thesis
    unfolding h metersToScreen_unfold rz rx ry fz tanHalfFov_90 exampleProjector_aspect
    by (simp add: abs_quot_gt_def FOV_MARGIN_def exampleProjector_def)
qed

text \<open>
  The example target with that override set by \<open>setTargetOverride\<close>, the camera looking
  east (yaw \<open>- pi / 2\<close>) and horizontally at fov 90: the marker is at pixel (400, 450),
  where the direct projection puts the point.
\<close>

lemma override_equals_direct_projection_example:
  "getEffectiveOverride (setTargetOverride initialState ''target-1'' 90 5 0) (t_id exampleTarget)
     = Some \<lparr>ov_bearing = Some 90, ov_distance = Some 5, ov_height = Some 0\<rparr>
   \<and> metersToScreen exampleProjector 5 (- configCameraHeight exampleCamera) 0 (- (pi / 2)) 0 90
     = \<lparr>screenX = 400, screenY = 450, distance = sqrt (5 * 5 + 2.5 * 2.5 + 0 * 0), visible = True\<rparr>
   \<and> map_option (\<lambda>m. (m_screenX m, m_screenY m))
        (projectTarget (setTargetOverride initialState ''target-1'' 90 5 0) exampleProjector
           (Some exampleCamera) exampleTarget (- (pi / 2)) 0 90)
     = Some (400, 450)"
proof -
  let ?st = "setTargetOverride initialState ''target-1'' 90 5 0"
  have e: "getEffectiveOverride ?st (t_id exampleTarget)
     = Some \<lparr>ov_bearing = Some 90, ov_distance = Some 5, ov_height = Some 0\<rparr>"
    by (simp add: getEffectiveOverride_def setTargetOverride_def initialState_def
          exampleTarget_def)
  from override_equals_direct_projection_over_reals[OF e, of exampleProjector exampleCamera "- (pi / 2)" 0 90]
  show ?thesis
    using e by (auto simp: east5_projection split: option.splits)
qed

section \<open>Properties of the hit tester\<close>

lemma inside_ellipse_hit:
  assumes "insideRenderedEllipse x y m"
  shows "isPointInMarker x y m"
proof -
  from assms have r: "m_radius m \<noteq> 0" and f: "m_flattenY m \<noteq> 0"
    and lt: "((x - m_screenX m) / m_radius m)\<^sup>2
               + ((y - m_screenY m) / (m_radius m * m_flattenY m))\<^sup>2 < 1"
    by (simp_all add: insideRenderedEllipse_def Let_def)
  from lt have "((x - m_screenX m) / m_radius m) * ((x - m_screenX m) / m_radius m)
      + ((y - m_screenY m) / (m_radius m * m_flattenY m))
        * ((y - m_screenY m) / (m_radius m * m_flattenY m)) \<le> 1"
    by (simp add: power2_eq_square)
  with r f show ?thesis
    by (simp add: isPointInMarker_def Let_def HIT_RADIUS_MULTIPLIER_def)
qed

lemma isPointInMarkerFl_id: "isPointInMarkerFl id = isPointInMarker"
  by (intro ext) (auto simp: isPointInMarkerFl_def isPointInMarker_def Let_def
        HIT_RADIUS_MULTIPLIER_def)

lemma testPointFl_id: "testPointFl id = testPoint"
  by (intro ext) (simp add: testPointFl_def testPoint_def isPointInMarkerFl_id)

text \<open>What a rounding with relative error at most \<open>u\<close> does to the size of a value.\<close>

lemma fl_abs_le:
  fixes fl :: "real \<Rightarrow> real"
  assumes "\<forall>v. \<bar>fl v - v\<bar> \<le> u * \<bar>v\<bar>"
  shows "\<bar>fl v\<bar> \<le> \<bar>v\<bar> * (1 + u)"
proof -
  from assms have "\<bar>fl v - v\<bar> \<le> u * \<bar>v\<bar>" by blast
  then have "\<bar>fl v\<bar> \<le> \<bar>v\<bar> + u * \<bar>v\<bar>" by linarith
  then show ?thesis by (simp add: algebra_simps)
qed

lemma fl_abs_ge:
  fixes fl :: "real \<Rightarrow> real"
  assumes "\<forall>v. \<bar>fl v - v\<bar> \<le> u * \<bar>v\<bar>"
  shows "\<bar>v\<bar> * (1 - u) \<le> \<bar>fl v\<bar>"
proof -
  from assms have "\<bar>fl v - v\<bar> \<le> u * \<bar>v\<bar>" by blast
  then have "\<bar>v\<bar> - u * \<bar>v\<bar> \<le> \<bar>fl v\<bar>" by linarith
  then show ?thesis by (simp add: algebra_simps)
qed

lemma fl_nonneg_le:
  fixes fl :: "real \<Rightarrow> real"
  assumes "\<forall>v. \<bar>fl v - v\<bar> \<le> u * \<bar>v\<bar>" and "0 \<le> v"
  shows "fl v \<le> v * (1 + u)"
  using fl_abs_le[OF assms(1), of v] assms(2) by simp

lemma abs_quot_le:
  fixes x y X Y :: real
  assumes "\<bar>x\<bar> \<le> X" and "0 < Y" and "Y \<le> \<bar>y\<bar>"
  shows "\<bar>x / y\<bar> \<le> X / Y"
proof -
  have "0 \<le> \<bar>x\<bar>" by simp
  have "\<bar>x\<bar> / \<bar>y\<bar> \<le> X / Y"
    using assms by (intro frac_le) simp_all
  then show ?thesis by simp
qed

lemma square_le:
  fixes n N :: real
  assumes "\<bar>n\<bar> \<le> N"
  shows "n * n \<le> N * N"
proof -
  have "\<bar>n\<bar> * \<bar>n\<bar> \<le> N * N" using assms by (intro mult_mono) simp_all
  then show ?thesis by simp
qed

text \<open>
  A point inside the rendered ellipse by the margin is accepted by the hit test under
  every rounding of relative error at most \<open>u\<close>.
\<close>

lemma inside_margin_hit:
  fixes fl :: "real \<Rightarrow> real"
  assumes rnd: "\<forall>v. \<bar>fl v - v\<bar> \<le> u * \<bar>v\<bar>" and u: "0 \<le> u" "u < 1"
    and inside: "insideRenderedEllipseBy u x y m"
  shows "isPointInMarkerFl fl x y m"
proof -
  define r where "r = m_radius m"
  define f where "f = m_flattenY m"
  define a where "a = x - m_screenX m"
  define b where "b = y - m_screenY m"
  define c where "c = 1 + u"
  define e where "e = 1 - u"
  have c: "1 \<le> c" and e: "0 < e" "e \<le> 1" using u by (simp_all add: c_def e_def)
  from inside have r: "r \<noteq> 0" and f: "f \<noteq> 0"
    and S: "((a / r)\<^sup>2 + (b / (r * f))\<^sup>2) * c ^ 6 \<le> e ^ 4"
    by (simp_all add: insideRenderedEllipseBy_def Let_def r_def f_def a_def b_def c_def e_def)
  define hr where "hr = fl r"
  define hy where "hy = fl (hr * f)"
  define nx where "nx = fl (fl a / hr)"
  define ny where "ny = fl (fl b / hy)"
  have hr: "\<bar>r\<bar> * e \<le> \<bar>hr\<bar>" unfolding hr_def e_def by (rule fl_abs_ge[OF rnd])
  have re: "0 < \<bar>r\<bar> * e" using r e by simp
  then have hr0: "hr \<noteq> 0" using hr by auto
  have "\<bar>hr * f\<bar> * e \<le> \<bar>hy\<bar>" unfolding hy_def e_def by (rule fl_abs_ge[OF rnd])
  moreover have "\<bar>r\<bar> * e * \<bar>f\<bar> * e \<le> \<bar>hr * f\<bar> * e"
    using hr e by (simp add: abs_mult mult_right_mono)
  ultimately have hy: "\<bar>r\<bar> * \<bar>f\<bar> * e\<^sup>2 \<le> \<bar>hy\<bar>"
    by (simp add: power2_eq_square algebra_simps)
  have rfe: "0 < \<bar>r\<bar> * \<bar>f\<bar> * e\<^sup>2" using r f e by simp
  then have hy0: "hy \<noteq> 0" using hy by auto
  have fa: "\<bar>fl a\<bar> \<le> \<bar>a\<bar> * c" unfolding c_def by (rule fl_abs_le[OF rnd])
  have fb: "\<bar>fl b\<bar> \<le> \<bar>b\<bar> * c" unfolding c_def by (rule fl_abs_le[OF rnd])
  have "\<bar>nx\<bar> \<le> \<bar>fl a / hr\<bar> * c" unfolding nx_def c_def by (rule fl_abs_le[OF rnd])
  also have "\<dots> \<le> (\<bar>a\<bar> * c / (\<bar>r\<bar> * e)) * c"
    using abs_quot_le[OF fa re hr] c by (intro mult_right_mono) simp_all
  finally have nx: "\<bar>nx\<bar> \<le> (\<bar>a\<bar> * c / (\<bar>r\<bar> * e)) * c" .
  have "\<bar>ny\<bar> \<le> \<bar>fl b / hy\<bar> * c" unfolding ny_def c_def by (rule fl_abs_le[OF rnd])
  also have "\<dots> \<le> (\<bar>b\<bar> * c / (\<bar>r\<bar> * \<bar>f\<bar> * e\<^sup>2)) * c"
    using abs_quot_le[OF fb rfe hy] c by (intro mult_right_mono) simp_all
  finally have ny: "\<bar>ny\<bar> \<le> (\<bar>b\<bar> * c / (\<bar>r\<bar> * \<bar>f\<bar> * e\<^sup>2)) * c" .
  define A where "A = (a / r)\<^sup>2"
  define B where "B = (b / (r * f))\<^sup>2"
  have A0: "0 \<le> A" and B0: "0 \<le> B" by (simp_all add: A_def B_def)
  have nx2: "nx * nx \<le> A * c ^ 4 / e ^ 4"
  proof -
    have "nx * nx \<le> ((\<bar>a\<bar> * c / (\<bar>r\<bar> * e)) * c) * ((\<bar>a\<bar> * c / (\<bar>r\<bar> * e)) * c)"
      by (rule square_le[OF nx])
    also have "\<dots> = A * c ^ 4 / e\<^sup>2"
      using r e by (simp add: A_def power2_eq_square power4_eq_xxxx field_simps)
    also have "\<dots> \<le> A * c ^ 4 / e ^ 4"
    proof -
      have "e ^ 4 \<le> e\<^sup>2" using e by (simp add: power_decreasing)
      moreover have "0 < e ^ 4" using e by simp
      moreover have "0 \<le> A * c ^ 4" using A0 c by simp
      ultimately show ?thesis by (intro divide_left_mono) simp_all
    qed
    finally show ?thesis .
  qed
  have ny2: "ny * ny \<le> B * c ^ 4 / e ^ 4"
  proof -
    have "ny * ny \<le> ((\<bar>b\<bar> * c / (\<bar>r\<bar> * \<bar>f\<bar> * e\<^sup>2)) * c) * ((\<bar>b\<bar> * c / (\<bar>r\<bar> * \<bar>f\<bar> * e\<^sup>2)) * c)"
      by (rule square_le[OF ny])
    also have "\<dots> = B * c ^ 4 / e ^ 4"
      using r f e by (simp add: B_def power2_eq_square power4_eq_xxxx field_simps)
    finally show ?thesis .
  qed
  have p: "fl (nx * nx) \<le> (A * c ^ 4 / e ^ 4) * c"
  proof -
    have "fl (nx * nx) \<le> (nx * nx) * c"
      unfolding c_def by (rule fl_nonneg_le[OF rnd]) simp
    also have "\<dots> \<le> (A * c ^ 4 / e ^ 4) * c"
      using nx2 c by (intro mult_right_mono) simp_all
    finally show ?thesis .
  qed
  have q: "fl (ny * ny) \<le> (B * c ^ 4 / e ^ 4) * c"
  proof -
    have "fl (ny * ny) \<le> (ny * ny) * c"
      unfolding c_def by (rule fl_nonneg_le[OF rnd]) simp
    also have "\<dots> \<le> (B * c ^ 4 / e ^ 4) * c"
      using ny2 c by (intro mult_right_mono) simp_all
    finally show ?thesis .
  qed
  have p0: "0 \<le> fl (nx * nx)"
  proof -
    have "\<bar>fl (nx * nx) - nx * nx\<bar> \<le> u * \<bar>nx * nx\<bar>" using rnd by blast
    moreover have "u * \<bar>nx * nx\<bar> \<le> 1 * \<bar>nx * nx\<bar>" using u by (intro mult_right_mono) simp_all
    moreover have "\<bar>nx * nx\<bar> = nx * nx" by simp
    ultimately show ?thesis by linarith
  qed
  have q0: "0 \<le> fl (ny * ny)"
  proof -
    have "\<bar>fl (ny * ny) - ny * ny\<bar> \<le> u * \<bar>ny * ny\<bar>" using rnd by blast
    moreover have "u * \<bar>ny * ny\<bar> \<le> 1 * \<bar>ny * ny\<bar>" using u by (intro mult_right_mono) simp_all
    moreover have "\<bar>ny * ny\<bar> = ny * ny" by simp
    ultimately show ?thesis by linarith
  qed
  have "fl (fl (nx * nx) + fl (ny * ny)) \<le> (fl (nx * nx) + fl (ny * ny)) * c"
    unfolding c_def using p0 q0 by (intro fl_nonneg_le[OF rnd]) simp
  also have "\<dots> \<le> ((A * c ^ 4 / e ^ 4) * c + (B * c ^ 4 / e ^ 4) * c) * c"
    using p q c by (intro mult_right_mono add_mono) simp_all
  also have "\<dots> = ((A + B) * c ^ 6) / e ^ 4"
    by (simp add: algebra_simps power_numeral_reduce add_divide_distrib)
  also have "\<dots> \<le> 1"
    using S e by (simp add: A_def B_def)
  finally have s: "fl (fl (nx * nx) + fl (ny * ny)) \<le> 1" .
  show ?thesis
    using s hr0 hy0 f
    by (simp add: isPointInMarkerFl_def Let_def HIT_RADIUS_MULTIPLIER_def
          r_def[symmetric] f_def[symmetric] a_def[symmetric] b_def[symmetric]
          hr_def[symmetric] hy_def[symmetric] nx_def[symmetric] ny_def[symmetric])
qed

lemma find_first_split:
  assumes "m \<in> set xs" and "Q m"
  shows "\<exists>hit pre post. xs = pre @ hit # post \<and> find Q xs = Some hit \<and> Q hit
           \<and> (\<forall>m'\<in>set pre. \<not> Q m') \<and> (hit = m \<or> m \<in> set post)"
proof -
  from assms have "\<exists>v\<in>set xs. Q v" by blast
  from split_list_first_prop[OF this]
  obtain pre hit post where s: "xs = pre @ hit # post" "Q hit" "\<forall>m'\<in>set pre. \<not> Q m'"
    by blast
  have f: "find Q (pre @ hit # post) = Some hit"
    using s(2,3) by (induction pre) simp_all
  from assms s(1,3) have "hit = m \<or> m \<in> set post" by auto
  with s f show ?thesis by blast
qed

text \<open>
  Claim C6, as stated, fails where markers overlap: \<open>testPoint\<close> returns the first marker
  in near-to-far order whose hit ellipse contains the point. Two markers drawn at the
  same place, one nearer than the other: a point inside the farther marker's ellipse is
  reported as a hit of the nearer one.
\<close>

theorem C6_overlapping_markers_counterexample:
  "exampleFarMarker \<in> set (ht_markers (ht_setMarkers newHitTester [exampleFarMarker, exampleNearMarker]))
   \<and> insideRenderedEllipse 100 100 exampleFarMarker
   \<and> testPoint (ht_setMarkers newHitTester [exampleFarMarker, exampleNearMarker]) 100 100
       \<noteq> Some exampleFarMarker"
  by (simp add: ht_setMarkers_def newHitTester_def testPoint_def isPointInMarker_def
        insideRenderedEllipse_def exampleFarMarker_def exampleNearMarker_def
        HIT_RADIUS_MULTIPLIER_def Let_def)

text \<open>
  Claim C6, amended: for every marker held by the hit tester (after \<open>setMarkers\<close>) and
  every point inside that marker's rendered ellipse by a margin that covers the rounding
  of the hit test (for doubles, unit roundoff \<open>u = 2^-53\<close>:
  \<open>(dx / r)\<^sup>2 + (dy / (r * flattenY))\<^sup>2 \<le> (1 - u)^4 / (1 + u)^6\<close>, about \<open>1 - 1.1e-15\<close>; in
  exact arithmetic, \<open>u = 0\<close>: every point inside or on the ellipse), the hit test as the
  code evaluates it, with every operation rounded with relative error at most \<open>u\<close>
  (doubles, as long as no intermediate result overflows or underflows), accepts the point
  for that marker, and \<open>testPoint\<close> reports the first marker in
  near-to-far order whose hit test accepts the point: the marker itself or one sorted
  before it, no farther than it; it is the marker itself when the hit test accepts the
  point for no other held marker. (A point nearer to the rim than the margin can be
  rejected by the rounded sum.)
\<close>

theorem C6_inside_ellipse_is_hit:
  fixes fl :: "real \<Rightarrow> real"
  assumes rnd: "\<forall>v. \<bar>fl v - v\<bar> \<le> u * \<bar>v\<bar>" and u: "0 \<le> u" "u < 1"
    and held: "m \<in> set (ht_markers (ht_setMarkers H markers))"
    and inside: "insideRenderedEllipseBy u x y m"
  shows "isPointInMarkerFl fl x y m
         \<and> (\<exists>hit pre post.
               ht_markers (ht_setMarkers H markers) = pre @ hit # post
               \<and> testPointFl fl (ht_setMarkers H markers) x y = Some hit
               \<and> isPointInMarkerFl fl x y hit
               \<and> (\<forall>m'\<in>set pre. \<not> isPointInMarkerFl fl x y m')
               \<and> (hit = m \<or> m \<in> set post)
               \<and> m_distance hit \<le> m_distance m)
         \<and> ((\<forall>m'\<in>set markers. m' \<noteq> m \<longrightarrow> \<not> isPointInMarkerFl fl x y m')
               \<longrightarrow> testPointFl fl (ht_setMarkers H markers) x y = Some m)"
proof -
  let ?xs = "sort_key m_distance markers"
  have xs: "ht_markers (ht_setMarkers H markers) = ?xs" by (simp add: ht_setMarkers_def)
  have hitm: "isPointInMarkerFl fl x y m"
    using rnd u inside by (rule inside_margin_hit)
  have mem: "m \<in> set ?xs" using held by (simp add: xs)
  from find_first_split[of m ?xs "isPointInMarkerFl fl x y"] mem hitm
  obtain hit pre post where s: "?xs = pre @ hit # post"
    and f: "find (isPointInMarkerFl fl x y) ?xs = Some hit"
    and q: "isPointInMarkerFl fl x y hit"
    and first: "\<forall>m'\<in>set pre. \<not> isPointInMarkerFl fl x y m'"
    and pos: "hit = m \<or> m \<in> set post"
    by blast
  have "sorted (map m_distance ?xs)" by (rule sorted_sort_key)
  then have "sorted (map m_distance pre @ m_distance hit # map m_distance post)"
    unfolding s by simp
  then have "\<forall>d\<in>set (map m_distance post). m_distance hit \<le> d"
    by (simp add: sorted_append)
  with pos have le: "m_distance hit \<le> m_distance m" by auto
  have uniq: "testPointFl fl (ht_setMarkers H markers) x y = Some m"
    if other: "\<forall>m'\<in>set markers. m' \<noteq> m \<longrightarrow> \<not> isPointInMarkerFl fl x y m'"
  proof -
    have "hit \<in> set ?xs" unfolding s by simp
    then have "hit \<in> set markers" by simp
    with other q have "hit = m" by blast
    with f show ?thesis by (simp add: testPointFl_def xs)
  qed
  have t: "testPointFl fl (ht_setMarkers H markers) x y = Some hit"
    using f by (simp add: testPointFl_def xs)
  from s t q first pos le have "\<exists>hit pre post.
               ht_markers (ht_setMarkers H markers) = pre @ hit # post
               \<and> testPointFl fl (ht_setMarkers H markers) x y = Some hit
               \<and> isPointInMarkerFl fl x y hit
               \<and> (\<forall>m'\<in>set pre. \<not> isPointInMarkerFl fl x y m')
               \<and> (hit = m \<or> m \<in> set post)
               \<and> m_distance hit \<le> m_distance m"
    unfolding xs by blast
  with hitm uniq show ?thesis by blast
qed

text \<open>
  In exact arithmetic (\<open>fl\<close> the identity, \<open>u = 0\<close>) the hit test is \<open>isPointInMarker\<close> and
  every point strictly inside the rendered ellipse is inside by the margin.
\<close>

lemma insideRenderedEllipse_margin_0:
  assumes "insideRenderedEllipse x y m"
  shows "insideRenderedEllipseBy 0 x y m"
  using assms by (simp add: insideRenderedEllipse_def insideRenderedEllipseBy_def Let_def)

text \<open>
  The two overlapping example markers under a rounding that errs by the full unit
  roundoff of doubles: the point (100, 100) is inside the far marker's ellipse by the
  margin, the rounded hit test accepts it for the far marker, and \<open>testPoint\<close> reports
  the near marker, the first in near-to-far order.
\<close>

theorem C6_inside_ellipse_is_hit_witness:
  "(\<forall>v. \<bar>exampleRounding v - v\<bar> \<le> (1 / 2 ^ 53) * \<bar>v\<bar>)
   \<and> (0::real) \<le> 1 / 2 ^ 53 \<and> (1::real) / 2 ^ 53 < 1
   \<and> exampleFarMarker \<in> set (ht_markers (ht_setMarkers newHitTester [exampleFarMarker, exampleNearMarker]))
   \<and> insideRenderedEllipseBy (1 / 2 ^ 53) 100 100 exampleFarMarker
   \<and> isPointInMarkerFl exampleRounding 100 100 exampleFarMarker
   \<and> testPointFl exampleRounding (ht_setMarkers newHitTester [exampleFarMarker, exampleNearMarker])
        100 100 = Some exampleNearMarker
   \<and> m_distance exampleNearMarker \<le> m_distance exampleFarMarker"
proof -
  have rnd: "\<forall>v. \<bar>exampleRounding v - v\<bar> \<le> (1 / 2 ^ 53) * \<bar>v\<bar>"
    by (simp add: exampleRounding_def algebra_simps abs_mult)
  have u: "(0::real) \<le> 1 / 2 ^ 53" "(1::real) / 2 ^ 53 < 1" by simp_all
  have held: "exampleFarMarker
      \<in> set (ht_markers (ht_setMarkers newHitTester [exampleFarMarker, exampleNearMarker]))"
    by (simp add: ht_setMarkers_def)
  have inside: "insideRenderedEllipseBy (1 / 2 ^ 53) 100 100 exampleFarMarker"
    by (simp add: insideRenderedEllipseBy_def exampleFarMarker_def Let_def)
  have t: "testPointFl exampleRounding
             (ht_setMarkers newHitTester [exampleFarMarker, exampleNearMarker]) 100 100
       = Some exampleNearMarker"
    by (simp add: ht_setMarkers_def newHitTester_def testPointFl_def isPointInMarkerFl_def
        exampleRounding_def exampleFarMarker_def exampleNearMarker_def
        HIT_RADIUS_MULTIPLIER_def Let_def)
  have d: "m_distance exampleNearMarker \<le> m_distance exampleFarMarker"
    by (simp add: exampleFarMarker_def exampleNearMarker_def)
  from C6_inside_ellipse_is_hit[OF rnd u held inside] rnd u held inside t d
  show ?thesis by simp
qed

section \<open>Properties of the orchestrator\<close>

subsection \<open>A frame without camera config\<close>

text \<open>
  Claim C9: while no camera config has been set, \<open>update\<close> returns normally for every
  camera state and leaves the whole orchestrator state unchanged, the stored
  yaw/pitch/fov, the hovered id, the hit tester and the renderer (marker list, ground
  cursor, ground grid, draw passes) included.
\<close>

theorem C9_update_without_camera_config_is_noop:
  assumes "cameraConfig N = None"
  shows "update st N cameraState = Inr N"
  using assms by (simp add: update_def split: option.splits)

text \<open>
  With a camera config the frame is not a no-op: the renderer carries out a draw pass
  and the camera state is stored.
\<close>

lemma update_with_camera_config_draws:
  "\<exists>N'. update initialState (setCameraConfig exampleNavigator (Some exampleCamera))
           \<lparr>cs_yaw = 0, cs_pitch = 0, cs_fov = 60\<rparr> = Inr N'
        \<and> map_option r_frames (navRenderer N') = Some 1 \<and> currentFov N' = 60"
proof -
  have T: "0 < tanHalfFov 60" by (rule tanHalfFov_pos) simp_all
  have "fst (snd (groundRay (proj_setCameraConfig (newProjector 800 600) (Some exampleCamera))
          0 0 (worldYaw exampleCamera 0) 0 60)) = tanHalfFov 60"
    by (simp add: groundRay_unfold Let_def proj_setCameraConfig_def newProjector_def worldYaw_def
          exampleCamera_def)
  with T have g: "screenToGround (proj_setCameraConfig (newProjector 800 600) (Some exampleCamera))
          0 0 (worldYaw exampleCamera 0) 0 60 = None"
    by (intro screenToGround_ray_up) simp
  show ?thesis
    by (simp add: update_def setCameraConfig_def exampleNavigator_def initNavigator_def
          moduleState_def Let_def frameMarkers_def frameNearbyMarkers_def newHitTester_def
          ht_setMarkers_def testPoint_def updateGroundCursor_def truthy_def g render_def
          newRenderer_def)
qed

text \<open>
  The orchestrator right after \<open>initNavigator\<close>, before any \<open>setCameraConfig\<close>.
\<close>

theorem C9_update_without_camera_config_is_noop_witness:
  "cameraConfig exampleNavigator = None
   \<and> update initialState exampleNavigator \<lparr>cs_yaw = 1, cs_pitch = 0, cs_fov = 60\<rparr>
       = Inr exampleNavigator"
proof -
  have c: "cameraConfig exampleNavigator = None"
    by (simp add: exampleNavigator_def initNavigator_def moduleState_def)
  from C9_update_without_camera_config_is_noop[OF c] c show ?thesis by simp
qed

subsection \<open>Click dispatch in stale mode\<close>

lemma stale_facts:
  "setFromClickMode staleState" "\<not> truthy (selectedTargetId staleState)"
  by (simp_all add: staleState_def setSetFromClickMode_def initialState_def truthy_def)

lemma clickNavigator_hit:
  "overlayCanvas clickNavigator"
  "hitTester clickNavigator = Some (ht_setMarkers newHitTester [exampleNearMarker])"
  "onTargetSelectCallback clickNavigator"
  "testPoint (ht_setMarkers newHitTester [exampleNearMarker]) 100 100 = Some exampleNearMarker"
  by (simp_all add: clickNavigator_def exampleNavigator_def initNavigator_def moduleState_def
        ht_setMarkers_def newHitTester_def testPoint_def isPointInMarker_def
        exampleNearMarker_def HIT_RADIUS_MULTIPLIER_def Let_def)

text \<open>
  Claim C2, as stated, fails: the interception test is
  \<open>state.setFromClickMode && state.selectedTargetId\<close>, so a click in stale mode falls
  through to the Normal-mode dispatch. A click on a navigation marker then invokes the
  target-selection callback.
\<close>

theorem C2_stale_mode_click_counterexample:
  "setFromClickMode staleState \<and> \<not> truthy (selectedTargetId staleState)
   \<and> handleClick staleState clickNavigator 100 100 = Inr [TargetSelect ''near'']
   \<and> handleClick staleState clickNavigator 100 100 \<noteq> Inr []"
  using stale_facts clickNavigator_hit
  by (simp add: handleClick_def exampleNearMarker_def)

text \<open>
  Claim C2, amended: a click delivered while Set-from-click mode is active but no target
  is selected is not intercepted: no set-from-click callback is invoked, and the click
  takes the Normal-mode dispatch (the same result as with the mode switched off).
  Without an overlay canvas nothing happens. Otherwise the hit test decides: a click
  that hits no marker is ignored; a hit nearby marker, with the nearby preview enabled
  and a nearby callback set, invokes the nearby callback with the marker's data and
  nothing else; else a hit navigation marker, with a target-selection callback set,
  invokes the target-selection callback with the marker's id and nothing else; any
  other hit is ignored. (With an overlay canvas but no hit tester the call throws, as in
  Normal mode.)
\<close>

theorem C2_stale_mode_click_is_normal_dispatch:
  assumes "setFromClickMode st" and "\<not> truthy (selectedTargetId st)"
  shows "handleClick st N x y = handleClick (st\<lparr>setFromClickMode := False\<rparr>) N x y
         \<and> (\<forall>cbs b d. handleClick st N x y = Inr cbs \<longrightarrow> SetFromClick b d \<notin> set cbs)
         \<and> (\<forall>H. hitTester N = Some H \<and> testPoint H x y = None
                 \<longrightarrow> handleClick st N x y = Inr [])
         \<and> (\<not> overlayCanvas N \<longrightarrow> handleClick st N x y = Inr [])
         \<and> (overlayCanvas N \<and> hitTester N = None \<longrightarrow> handleClick st N x y = Inl TypeError)
         \<and> (\<forall>H hit. overlayCanvas N \<and> hitTester N = Some H \<and> testPoint H x y = Some hit
                 \<longrightarrow> handleClick st N x y =
                       (if m_type hit = Some Nearby \<and> nearbyPreviewEnabled N
                           \<and> onNearbyClickCallback N
                        then Inr [NearbyClick (m_data hit)]
                        else if m_type hit = Some Navigation \<and> onTargetSelectCallback N
                        then Inr [TargetSelect (m_id hit)]
                        else Inr []))"
proof -
  note stale = assms
  have same: "handleClick st N x y = handleClick (st\<lparr>setFromClickMode := False\<rparr>) N x y"
    using stale by (auto simp: handleClick_def)
  have noset: "\<forall>cbs b d. handleClick st N x y = Inr cbs \<longrightarrow> SetFromClick b d \<notin> set cbs"
    using stale by (auto simp: handleClick_def split: option.splits if_splits)
  have miss: "\<forall>H. hitTester N = Some H \<and> testPoint H x y = None
                 \<longrightarrow> handleClick st N x y = Inr []"
    using stale by (auto simp: handleClick_def)
  have nocanvas: "\<not> overlayCanvas N \<longrightarrow> handleClick st N x y = Inr []"
    by (simp add: handleClick_def)
  have throws: "overlayCanvas N \<and> hitTester N = None \<longrightarrow> handleClick st N x y = Inl TypeError"
    using stale by (auto simp: handleClick_def)
  have hit: "\<forall>H hit. overlayCanvas N \<and> hitTester N = Some H \<and> testPoint H x y = Some hit
                 \<longrightarrow> handleClick st N x y =
                       (if m_type hit = Some Nearby \<and> nearbyPreviewEnabled N
                           \<and> onNearbyClickCallback N
                        then Inr [NearbyClick (m_data hit)]
                        else if m_type hit = Some Navigation \<and> onTargetSelectCallback N
                        then Inr [TargetSelect (m_id hit)]
                        else Inr [])"
    using stale by (auto simp: handleClick_def)
  from same noset miss nocanvas throws hit show ?thesis by blast
qed

text \<open>
  The stale state and the navigator holding one navigation marker: a click on the marker
  invokes the target-selection callback with the marker's id, a click beside it is
  ignored.
\<close>

theorem C2_stale_mode_click_is_normal_dispatch_witness:
  "setFromClickMode staleState \<and> \<not> truthy (selectedTargetId staleState)
   \<and> handleClick staleState clickNavigator 100 100
       = handleClick (staleState\<lparr>setFromClickMode := False\<rparr>) clickNavigator 100 100
   \<and> handleClick staleState clickNavigator 100 100 = Inr [TargetSelect ''near'']
   \<and> handleClick staleState clickNavigator 500 500 = Inr []"
proof -
  have miss: "testPoint (ht_setMarkers newHitTester [exampleNearMarker]) 500 500 = None"
    by (simp add: ht_setMarkers_def newHitTester_def testPoint_def isPointInMarker_def
        exampleNearMarker_def HIT_RADIUS_MULTIPLIER_def Let_def)
  have near: "m_type exampleNearMarker = Some Navigation" "m_id exampleNearMarker = ''near''"
    by (simp_all add: exampleNearMarker_def)
  from C2_stale_mode_click_is_normal_dispatch[OF stale_facts, of clickNavigator 100 100]
    clickNavigator_hit near
  have hit: "handleClick staleState clickNavigator 100 100 = Inr [TargetSelect ''near'']"
    by auto
  from C2_stale_mode_click_is_normal_dispatch[OF stale_facts, of clickNavigator]
    stale_facts clickNavigator_hit(2) miss hit
  show ?thesis by blast
qed

text \<open>
  \<open>handleClick\<close> itself assigns no calibration state; what a dispatched callback does is
  the host's. The host (app.js) passes \<open>selectTarget\<close> as the target-selection callback:
  the selection made by a stale-mode click on a navigation marker sets the selected
  target and switches Set-from-click mode off.
\<close>

lemma stale_click_selection_leaves_mode:
  "selectedTargetId (selectTarget staleState ''near'') = Some ''near''
   \<and> \<not> setFromClickMode (selectTarget staleState ''near'')"
  by (simp add: selectTarget_def)

subsection \<open>The target nearest to the cursor\<close>













subsection \<open>The example frame\<close>































end
